theory Spec2Isabelle
  imports Main
begin

section \<open>The deployer script and its environment\<close>

text \<open>
  The program is \<^verbatim>\<open>src/complete-deployer.js\<close>, a Node.js script. Everything it does is
  an effect on its environment: console output, the file system, child processes and the
  ethers SDK. The embedding makes the environment explicit. A \<open>world\<close> holds what the
  script is given and cannot control (arguments, environment variables, the initial file
  tree, the behaviour of the operating system, of the external tools and of the SDK); a
  \<open>state\<close> holds what the script changes (the file tree, the working directory) together
  with the trace of every effect it attempted, in order. Strings are byte strings: text
  outside ASCII is written as its UTF-8 bytes.
\<close>

subsection \<open>Effects\<close>

datatype node = File string | Dir

text \<open>File-system operations carry the path exactly as the script passes it.\<close>

datatype fs_op =
    Mkdir string
  | Chdir string
  | WriteFile string string

text \<open>
  Calls into the ethers SDK (and, in the generated scripts, into the Hardhat runtime and
  Node's module loader). Every call but the construction of a provider may throw.
\<close>

datatype sdk_call =
    NewJsonRpcProvider string
  | NewWallet string
  | GetSigners
  | GetBalance string
  | FormatEther string
  | NewContractFactory string
  | GetContractFactory string
  | FactoryDeploy string
  | WaitForDeployment string
  | GetAddress string
  | DeploymentTransactionHash string
  | RequireJson string
  | NewContract string
  | ContractName string
  | ContractSymbol string
  | ContractTotalSupply string

datatype event =
    Log string
  | LogError string
  | Fs fs_op "string option"
  | Sdk sdk_call "string + string"
  | ExecSync string "event list" nat

text \<open>
  \<open>Fs op r\<close>: the operation was attempted, \<open>r = None\<close> on success and \<open>Some message\<close>
  when it threw. \<open>Sdk c r\<close>: the call was made, \<open>Inr value\<close> on success and
  \<open>Inl message\<close> when it threw or rejected. \<open>ExecSync cmd evs n\<close>: the child process
  \<open>cmd\<close> ran, did \<open>evs\<close> and exited with status \<open>n\<close>.
\<close>

fun is_network_call :: "event \<Rightarrow> bool" where
  "is_network_call (Sdk (GetBalance a) r) = True"
| "is_network_call (Sdk (FactoryDeploy f) r) = True"
| "is_network_call (Sdk (WaitForDeployment c) r) = True"
| "is_network_call (Sdk (ContractName c) r) = True"
| "is_network_call (Sdk (ContractSymbol c) r) = True"
| "is_network_call (Sdk (ContractTotalSupply c) r) = True"
| "is_network_call e = False"


subsection \<open>World and state\<close>

record world =
  argv :: "string list"
  env_PRIVATE_KEY :: "string option"
  env_RPC_URL :: "string option"
  fs0 :: "string list \<Rightarrow> node option"
  cwd0 :: "string list"
  os_error :: "string list \<Rightarrow> fs_op \<Rightarrow> string option"
  tool :: "string \<Rightarrow> (string list \<Rightarrow> node option) \<Rightarrow> string list
             \<Rightarrow> nat \<times> (string list \<Rightarrow> node option)"
  sdk :: "sdk_call \<Rightarrow> string + string"
  now :: int

text \<open>
  \<open>argv\<close> is \<^verbatim>\<open>process.argv\<close>; an environment variable is \<open>None\<close> when unset.
  \<open>fs0\<close> maps an absolute path (its components) to what is there when the script starts,
  \<open>cwd0\<close> is the directory it starts in. \<open>os_error cwd op\<close> is the error, if any, with
  which the operating system refuses an operation that is otherwise possible (permissions,
  a full disk). \<open>tool cmd tree cwd\<close> is the exit status of an external command and the
  file tree it leaves. \<open>sdk\<close> answers SDK calls, \<open>now\<close> is the clock in milliseconds
  since the epoch.
\<close>

record state =
  trace :: "event list"
  nodes :: "string list \<Rightarrow> node option"
  cwd :: "string list"

datatype completion = Normal | Throw string | Exit nat

text \<open>
  A statement runs from a state to a completion and a state: it completes normally, throws
  an \<^verbatim>\<open>Error\<close> with a message, or ends the process with \<^verbatim>\<open>process.exit(n)\<close>.
\<close>

type_synonym proc = "state \<Rightarrow> completion \<times> state"

definition emit :: "event \<Rightarrow> state \<Rightarrow> state" where
  "emit e s = s\<lparr>trace := trace s @ [e]\<rparr>"

definition skip :: proc where
  "skip s = (Normal, s)"

definition throw :: "string \<Rightarrow> proc" where
  "throw m s = (Throw m, s)"

definition process_exit :: "nat \<Rightarrow> proc" where
  "process_exit n s = (Exit n, s)"

definition andThen :: "proc \<Rightarrow> proc \<Rightarrow> proc" where
  "andThen p q s = (case p s of (Normal, s') \<Rightarrow> q s' | (c, s') \<Rightarrow> (c, s'))"

text \<open>A block of statements, run in order until one does not complete normally.\<close>

fun block :: "proc list \<Rightarrow> proc" where
  "block [] = skip"
| "block (p # ps) = andThen p (block ps)"

definition try_catch :: "proc \<Rightarrow> (string \<Rightarrow> proc) \<Rightarrow> proc" where
  "try_catch p h s = (case p s of (Throw m, s') \<Rightarrow> h m s' | (c, s') \<Rightarrow> (c, s'))"

definition console_log :: "string \<Rightarrow> proc" where
  "console_log m s = (Normal, emit (Log m) s)"

definition console_error :: "string \<Rightarrow> proc" where
  "console_error m s = (Normal, emit (LogError m) s)"

text \<open>
  An SDK call that may throw: the result is handed to the rest of the statement.
\<close>

definition call :: "world \<Rightarrow> sdk_call \<Rightarrow> (string \<Rightarrow> proc) \<Rightarrow> proc" where
  "call w c k s =
     (case sdk w c of
        Inl e \<Rightarrow> (Throw e, emit (Sdk c (Inl e)) s)
      | Inr v \<Rightarrow> k v (emit (Sdk c (Inr v)) s))"

text \<open>
  \<^verbatim>\<open>new ethers.JsonRpcProvider(url)\<close> stores the URL. It does no I/O and does not throw.
\<close>

definition new_provider :: "string \<Rightarrow> proc" where
  "new_provider url s = (Normal, emit (Sdk (NewJsonRpcProvider url) (Inr url)) s)"

text \<open>\<^verbatim>\<open>a || b\<close> on an environment variable: unset and the empty string are falsy.\<close>

definition falsy :: "string option \<Rightarrow> bool" where
  "falsy v = (case v of None \<Rightarrow> True | Some x \<Rightarrow> x = [])"

definition or_else :: "string option \<Rightarrow> string \<Rightarrow> string" where
  "or_else v d = (case v of None \<Rightarrow> d | Some x \<Rightarrow> if x = [] then d else x)"

subsection \<open>Console messages\<close>

text \<open>The fixed messages of the script and of the scripts it generates, as UTF-8 bytes.\<close>

definition quick_banner :: string where
  \<open>quick_banner = [CHR 0xE2, CHR 0x9A, CHR 0xA1] @ '' QUICK DEPLOYMENT MODE (Direct Ethers.js)''\<close>

definition missing_key_message :: string where
  \<open>missing_key_message = [CHR 0xE2, CHR 0x9D, CHR 0x8C] @ '' Please set PRIVATE_KEY environment variable''\<close>

definition deploying_message :: string where
  \<open>deploying_message = [CHR 0xF0, CHR 0x9F, CHR 0x9A, CHR 0x80] @ '' Deploying...''\<close>

definition deploy_started_message :: string where
  \<open>deploy_started_message = [CHR 0xF0, CHR 0x9F, CHR 0x9A, CHR 0x80] @ '' Starting AIR token deployment...''\<close>

definition deploy_saved_message :: string where
  \<open>deploy_saved_message = [CHR 0xF0, CHR 0x9F, CHR 0x93, CHR 0x84] @ '' Deployment info saved to deployment-info.json''\<close>

definition monitor_started_message :: string where
  \<open>monitor_started_message = [CHR 0xF0, CHR 0x9F, CHR 0x91, CHR 0x80] @ '' Monitoring AIR token...''\<close>

definition creating_structure_message :: string where
  \<open>creating_structure_message = [CHR 0xF0, CHR 0x9F, CHR 0x93, CHR 0x81] @ '' Creating project structure...''\<close>

definition installing_message :: string where
  \<open>installing_message = [CHR 0xF0, CHR 0x9F, CHR 0x93, CHR 0xA6] @ '' Installing dependencies...''\<close>

definition creating_config_message :: string where
  \<open>creating_config_message = [CHR 0xE2, CHR 0x9A, CHR 0x99, CHR 0xEF, CHR 0xB8, CHR 0x8F] @ ''  Creating configuration files...''\<close>

definition deploying_token_message :: string where
  \<open>deploying_token_message = [CHR 0xF0, CHR 0x9F, CHR 0x93, CHR 0xA4] @ '' Deploying AIR token...''\<close>

definition monitoring_message :: string where
  \<open>monitoring_message = [CHR 0xF0, CHR 0x9F, CHR 0x93, CHR 0x8A] @ '' Starting deployment monitoring...''\<close>

definition credential_error :: string where
  \<open>credential_error = ''Please set PRIVATE_KEY environment variable or update the script''\<close>

definition started_message :: string where
  \<open>started_message =
     [CHR 0xF0, CHR 0x9F, CHR 0x9A, CHR 0x80] @ '' STARTING COMPLETE AIR TOKEN DEPLOYMENT SYSTEM\<newline>''\<close>

definition complete_message :: string where
  \<open>complete_message =
     ''\<newline>'' @ [CHR 0xF0, CHR 0x9F, CHR 0x8E, CHR 0x89] @ '' DEPLOYMENT COMPLETE! Your AIR token is live on Base Sepolia.''\<close>

definition failed_prefix :: string where
  \<open>failed_prefix = [CHR 0xE2, CHR 0x9D, CHR 0x8C] @ '' Deployment failed: ''\<close>

subsection \<open>Quick mode\<close>

definition bytecode :: string where
  \<open>bytecode = ''0x608060405234801561001057600080fd5b5060405161051438038061051483398101604081905261002f916100df565b8282816003908161004091906102f7565b50600480546001600160a01b0319163317905561005c8382610064565b505050506103be565b600280546001600160a01b0319166001600160a01b0384161790556040516000906100909083906100c3565b604051809103906000f0801580156100ac573d6000803e3d6000fd5b509050806001600160a01b03163''\<close>

definition quickDeploy :: "world \<Rightarrow> proc" where
  \<open>quickDeploy w =
     andThen (console_log quick_banner)
    (andThen (new_provider (or_else (env_RPC_URL w) ''https://sepolia.base.org''))
    (let privateKey = or_else (env_PRIVATE_KEY w) ''YOUR_PRIVATE_KEY_HERE'' in
     andThen (if privateKey = ''YOUR_PRIVATE_KEY_HERE''
              then andThen (console_log missing_key_message)
                           (process_exit 1)
              else skip)
    (call w (NewWallet privateKey) (\<lambda>address.
     andThen (console_log (''Deployer: '' @ address))
    (call w (GetBalance address) (\<lambda>balance.
     call w (FormatEther balance) (\<lambda>eth.
     andThen (console_log (''Balance: '' @ eth @ '' ETH''))
    (call w (NewContractFactory bytecode) (\<lambda>factory.
     andThen (console_log deploying_message)
    (call w (FactoryDeploy factory) (\<lambda>contract.
     call w (WaitForDeployment contract) (\<lambda>_.
     call w (GetAddress contract) (\<lambda>deployed.
     andThen (console_log ([CHR 0xE2, CHR 0x9C, CHR 0x85] @ '' Contract deployed to: '' @ deployed))
    (call w (DeploymentTransactionHash contract) (\<lambda>hash.
     console_log (''Transaction hash: '' @ hash))))))))))))))))\<close>

subsection \<open>The file system\<close>

text \<open>
  A path is resolved against the working directory by splitting it at \<^verbatim>\<open>/\<close>. The script
  only uses relative paths without \<^verbatim>\<open>.\<close> or \<^verbatim>\<open>..\<close>.
\<close>

fun split_path :: "string \<Rightarrow> string list" where
  "split_path [] = [Nil]"
| "split_path (c # cs) =
     (if c = CHR ''/'' then Nil # split_path cs
      else (case split_path cs of x # xs \<Rightarrow> (c # x) # xs | Nil \<Rightarrow> [c] # Nil))"

definition resolve :: "state \<Rightarrow> string \<Rightarrow> string list" where
  "resolve s p = cwd s @ split_path p"

definition existsSync :: "string \<Rightarrow> state \<Rightarrow> bool" where
  "existsSync p s = (nodes s (resolve s p) \<noteq> None)"

text \<open>
  An operation fails for a reason in the file tree (the path is taken, the parent is
  missing, the target is not what it should be) or because the operating system refuses it.
\<close>

definition fs_fail :: "fs_op \<Rightarrow> string \<Rightarrow> proc" where
  "fs_fail op m s = (Throw m, emit (Fs op (Some m)) s)"

definition mkdirSync :: "world \<Rightarrow> string \<Rightarrow> proc" where
  "mkdirSync w p s =
     (let a = resolve s p in
      if nodes s a \<noteq> None then fs_fail (Mkdir p) (''EEXIST: file already exists, mkdir '' @ p) s
      else if nodes s (butlast a) \<noteq> Some Dir
        then fs_fail (Mkdir p) (''ENOENT: no such file or directory, mkdir '' @ p) s
      else (case os_error w (cwd s) (Mkdir p) of
              Some e \<Rightarrow> fs_fail (Mkdir p) e s
            | None \<Rightarrow> (Normal, emit (Fs (Mkdir p) None) (s\<lparr>nodes := (nodes s)(a \<mapsto> Dir)\<rparr>))))"

definition chdir :: "world \<Rightarrow> string \<Rightarrow> proc" where
  "chdir w p s =
     (let a = resolve s p in
      if nodes s a \<noteq> Some Dir
        then fs_fail (Chdir p) (''ENOENT: no such file or directory, chdir to '' @ p) s
      else (case os_error w (cwd s) (Chdir p) of
              Some e \<Rightarrow> fs_fail (Chdir p) e s
            | None \<Rightarrow> (Normal, emit (Fs (Chdir p) None) (s\<lparr>cwd := a\<rparr>))))"

definition writeFileSync :: "world \<Rightarrow> string \<Rightarrow> string \<Rightarrow> proc" where
  "writeFileSync w p data s =
     (let a = resolve s p in
      if nodes s a = Some Dir
        then fs_fail (WriteFile p data) (''EISDIR: illegal operation on a directory, open '' @ p) s
      else if nodes s (butlast a) \<noteq> Some Dir
        then fs_fail (WriteFile p data) (''ENOENT: no such file or directory, open '' @ p) s
      else (case os_error w (cwd s) (WriteFile p data) of
              Some e \<Rightarrow> fs_fail (WriteFile p data) e s
            | None \<Rightarrow> (Normal, emit (Fs (WriteFile p data) None)
                                (s\<lparr>nodes := (nodes s)(a \<mapsto> File data)\<rparr>))))"

subsection \<open>JSON.stringify with an indentation of two spaces\<close>

datatype json = JString string | JObject "(string \<times> json) list"

definition hex_digit :: "nat \<Rightarrow> char" where
  "hex_digit n = ''0123456789abcdef'' ! (n mod 16)"

definition escape_char :: "char \<Rightarrow> string" where
  "escape_char c =
     (if c = CHR 0x22 then [CHR 0x5C, CHR 0x22]
      else if c = CHR 0x5C then [CHR 0x5C, CHR 0x5C]
      else if c = CHR 0x08 then [CHR 0x5C, CHR ''b'']
      else if c = CHR 0x09 then [CHR 0x5C, CHR ''t'']
      else if c = CHR 0x0A then [CHR 0x5C, CHR ''n'']
      else if c = CHR 0x0C then [CHR 0x5C, CHR ''f'']
      else if c = CHR 0x0D then [CHR 0x5C, CHR ''r'']
      else if (of_char c :: nat) < 32
        then [CHR 0x5C, CHR ''u'', CHR ''0'', CHR ''0'',
              hex_digit (of_char c div 16), hex_digit (of_char c)]
      else [c])"

definition quoteJSON :: "string \<Rightarrow> string" where
  "quoteJSON s = [CHR 0x22] @ concat (map escape_char s) @ [CHR 0x22]"

fun join :: "string \<Rightarrow> string list \<Rightarrow> string" where
  "join sep [] = []"
| "join sep [x] = x"
| "join sep (x # y # ys) = x @ sep @ join sep (y # ys)"

fun stringify :: "string \<Rightarrow> json \<Rightarrow> string" where
  "stringify indent (JString s) = quoteJSON s"
| "stringify indent (JObject kvs) =
     (if kvs = [] then ''{}''
      else ''{\<newline>'' @ (indent @ ''  '')
           @ join ('',\<newline>'' @ (indent @ ''  ''))
               (map (\<lambda>kv. quoteJSON (fst kv) @ '': '' @ stringify (indent @ ''  '') (snd kv)) kvs)
           @ ''\<newline>'' @ indent @ ''}'')"

definition JSON_stringify :: "json \<Rightarrow> string" where
  "JSON_stringify v = stringify [] v"

subsection \<open>Date.prototype.toISOString\<close>

text \<open>
  The time value is in milliseconds since the epoch, UTC. \<open>civil\<close> turns a day number
  into year, month and day of the proleptic Gregorian calendar.
\<close>

definition civil :: "int \<Rightarrow> int \<times> int \<times> int" where
  "civil day =
     (let z = day + 719468;
          era = z div 146097;
          doe = z mod 146097;
          yoe = (doe - doe div 1460 + doe div 36524 - doe div 146096) div 365;
          doy = doe - (365 * yoe + yoe div 4 - yoe div 100);
          mp = (5 * doy + 2) div 153;
          d = doy - (153 * mp + 2) div 5 + 1;
          m = (if mp < 10 then mp + 3 else mp - 9);
          y = yoe + era * 400
      in (if m \<le> 2 then y + 1 else y, m, d))"

definition digit :: "int \<Rightarrow> char" where
  "digit d = ''0123456789'' ! nat d"

fun pad :: "nat \<Rightarrow> int \<Rightarrow> string" where
  "pad 0 n = []"
| "pad (Suc k) n = pad k (n div 10) @ [digit (n mod 10)]"

definition year_string :: "int \<Rightarrow> string" where
  "year_string y =
     (if 0 \<le> y \<and> y \<le> 9999 then pad 4 y
      else if y < 0 then ''-'' @ pad 6 (- y)
      else ''+'' @ pad 6 y)"

definition toISOString :: "int \<Rightarrow> string" where
  "toISOString t =
     (let ms = t mod 86400000 in
      case civil (t div 86400000) of (y, m, d) \<Rightarrow>
        year_string y @ ''-'' @ pad 2 m @ ''-'' @ pad 2 d @ ''T''
        @ pad 2 (ms div 3600000) @ '':'' @ pad 2 (ms div 60000 mod 60) @ '':''
        @ pad 2 (ms div 1000 mod 60) @ ''.'' @ pad 3 (ms mod 1000) @ ''Z'')"

subsection \<open>The generated files\<close>

record deployer =
  projectName :: string
  privateKey :: string
  rpcUrl :: string

definition new_CompleteDeployer :: "world \<Rightarrow> deployer" where
  \<open>new_CompleteDeployer w =
     \<lparr>projectName = ''air-token-project'',
      privateKey = or_else (env_PRIVATE_KEY w) ''YOUR_PRIVATE_KEY_HERE'',
      rpcUrl = or_else (env_RPC_URL w) ''https://sepolia.base.org''\<rparr>\<close>

definition packageJson :: json where
  \<open>packageJson = JObject
     [(''name'', JString ''air-token-project''),
      (''version'', JString ''1.0.0''),
      (''scripts'', JObject
         [(''compile'', JString ''npx hardhat compile''),
          (''deploy'', JString ''npx hardhat run scripts/deploy.js --network baseSepolia''),
          (''test'', JString ''npx hardhat test'')]),
      (''devDependencies'', JObject
         [(''@nomiclabs/hardhat-ethers'', JString ''^2.2.3''),
          (''@openzeppelin/contracts'', JString ''^4.9.3''),
          (''ethers'', JString ''^6.10.0''),
          (''hardhat'', JString ''^2.20.2'')])]\<close>

definition hardhatConfig :: "deployer \<Rightarrow> string" where
  \<open>hardhatConfig this =
    ''\<newline>'' @
    ''require("@nomiclabs/hardhat-ethers");\<newline>'' @
    ''\<newline>'' @
    ''module.exports = {\<newline>'' @
    ''  solidity: "0.8.20",\<newline>'' @
    ''  networks: {\<newline>'' @
    ''    baseSepolia: {\<newline>'' @
    ''      url: "'' @ rpcUrl this @ ''",\<newline>'' @
    ''      chainId: 84532,\<newline>'' @
    ''      accounts: process.env.PRIVATE_KEY ? [process.env.PRIVATE_KEY] : []\<newline>'' @
    ''    }\<newline>'' @
    ''  }\<newline>'' @
    ''};\<newline>''\<close>

definition airContract :: string where
  \<open>airContract =
    ''\<newline>'' @
    ''// SPDX-License-Identifier: MIT\<newline>'' @
    ''pragma solidity ^0.8.20;\<newline>'' @
    ''\<newline>'' @
    ''import "@openzeppelin/contracts/token/ERC20/ERC20.sol";\<newline>'' @
    ''import "@openzeppelin/contracts/access/Ownable.sol";\<newline>'' @
    ''\<newline>'' @
    ''contract AIR is ERC20, Ownable {\<newline>'' @
    ''    constructor() ERC20("AIR Token", "AIR") Ownable(msg.sender) {\<newline>'' @
    ''        _mint(msg.sender, 1000000 * 10**decimals()); // 1 million tokens\<newline>'' @
    ''    }\<newline>'' @
    ''    \<newline>'' @
    ''    function mint(address to, uint256 amount) public onlyOwner {\<newline>'' @
    ''        _mint(to, amount);\<newline>'' @
    ''    }\<newline>'' @
    ''}\<newline>''\<close>

definition deployScript :: string where
  \<open>deployScript =
    ''\<newline>'' @
    ''const { ethers } = require("hardhat");\<newline>'' @
    ''\<newline>'' @
    ''async function main() {\<newline>'' @
    ''  console.log("'' @ [CHR 0xF0, CHR 0x9F, CHR 0x9A, CHR 0x80] @ '' Starting AIR token deployment...");\<newline>'' @
    ''  \<newline>'' @
    ''  const [deployer] = await ethers.getSigners();\<newline>'' @
    ''  console.log("Deployer:", deployer.address);\<newline>'' @
    ''  \<newline>'' @
    ''  const balance = await ethers.provider.getBalance(deployer.address);\<newline>'' @
    ''  console.log("Balance:", ethers.formatEther(balance), "ETH");\<newline>'' @
    ''  \<newline>'' @
    ''  // Deploy contract\<newline>'' @
    ''  const AIR = await ethers.getContractFactory("AIR");\<newline>'' @
    ''  const air = await AIR.deploy();\<newline>'' @
    ''  \<newline>'' @
    ''  await air.waitForDeployment();\<newline>'' @
    ''  const address = await air.getAddress();\<newline>'' @
    ''  \<newline>'' @
    ''  console.log("'' @ [CHR 0xE2, CHR 0x9C, CHR 0x85] @ '' AIR Token deployed to:", address);\<newline>'' @
    ''  console.log("Name:", await air.name());\<newline>'' @
    ''  console.log("Symbol:", await air.symbol());\<newline>'' @
    ''  console.log("Total Supply:", ethers.formatEther(await air.totalSupply()));\<newline>'' @
    ''  \<newline>'' @
    ''  // Save deployment info\<newline>'' @
    ''  const deploymentInfo = {\<newline>'' @
    ''    address: address,\<newline>'' @
    ''    deployer: deployer.address,\<newline>'' @
    ''    network: "base-sepolia",\<newline>'' @
    ''    timestamp: new Date().toISOString()\<newline>'' @
    ''  };\<newline>'' @
    ''  \<newline>'' @
    ''  require("fs").writeFileSync("deployment-info.json", JSON.stringify(deploymentInfo, null, 2));\<newline>'' @
    ''  console.log("'' @ [CHR 0xF0, CHR 0x9F, CHR 0x93, CHR 0x84] @ '' Deployment info saved to deployment-info.json");\<newline>'' @
    ''}\<newline>'' @
    ''\<newline>'' @
    ''main().catch((error) => {\<newline>'' @
    ''  console.error(error);\<newline>'' @
    ''  process.exit(1);\<newline>'' @
    ''});\<newline>''\<close>

definition envTemplate :: "deployer \<Rightarrow> string" where
  \<open>envTemplate this = ''PRIVATE_KEY=your_private_key_here\<newline>RPC_URL='' @ rpcUrl this\<close>

definition gitignore :: string where
  \<open>gitignore = ''node_modules/\<newline>.env\<newline>deployment-info.json\<newline>artifacts/\<newline>cache/''\<close>

definition monitorScript :: "deployer \<Rightarrow> string" where
  \<open>monitorScript this =
    ''\<newline>'' @
    ''const { ethers } = require("ethers");\<newline>'' @
    ''\<newline>'' @
    ''async function monitor() {\<newline>'' @
    ''    const provider = new ethers.JsonRpcProvider("'' @ rpcUrl this @ ''");\<newline>'' @
    ''    \<newline>'' @
    ''    try {\<newline>'' @
    ''        const deploymentInfo = require("./deployment-info.json");\<newline>'' @
    ''        const contract = new ethers.Contract(\<newline>'' @
    ''            deploymentInfo.address,\<newline>'' @
    ''            ["function name() view returns (string)"],\<newline>'' @
    ''            provider\<newline>'' @
    ''        );\<newline>'' @
    ''        \<newline>'' @
    ''        console.log("'' @ [CHR 0xF0, CHR 0x9F, CHR 0x91, CHR 0x80] @ '' Monitoring AIR token...");\<newline>'' @
    ''        console.log("Contract:", deploymentInfo.address);\<newline>'' @
    ''        console.log("Name:", await contract.name());\<newline>'' @
    ''        console.log("BaseScan: https://sepolia.basescan.org/address/" + deploymentInfo.address);\<newline>'' @
    ''        \<newline>'' @
    ''    } catch (error) {\<newline>'' @
    ''        console.log("Monitoring error:", error.message);\<newline>'' @
    ''    }\<newline>'' @
    ''}\<newline>'' @
    ''\<newline>'' @
    ''monitor();\<newline>''\<close>

subsection \<open>The generated scripts, as programs\<close>

text \<open>
  \<^verbatim>\<open>scripts/deploy.js\<close>, the program in the template \<open>deployScript\<close>. Any error of
  \<^verbatim>\<open>main\<close> is printed and ends the process with status 1.
\<close>

definition deploymentInfo :: "string \<Rightarrow> string \<Rightarrow> string \<Rightarrow> json" where
  \<open>deploymentInfo address deployer_address timestamp = JObject
     [(''address'', JString address),
      (''deployer'', JString deployer_address),
      (''network'', JString ''base-sepolia''),
      (''timestamp'', JString timestamp)]\<close>

definition deploy_main :: "world \<Rightarrow> proc" where
  \<open>deploy_main w =
     andThen (console_log deploy_started_message)
    (call w GetSigners (\<lambda>deployer_address.
     andThen (console_log (''Deployer: '' @ deployer_address))
    (call w (GetBalance deployer_address) (\<lambda>balance.
     call w (FormatEther balance) (\<lambda>eth.
     andThen (console_log (''Balance: '' @ eth @ '' ETH''))
    (call w (GetContractFactory ''AIR'') (\<lambda>AIR.
     call w (FactoryDeploy AIR) (\<lambda>air.
     call w (WaitForDeployment air) (\<lambda>_.
     call w (GetAddress air) (\<lambda>address.
     andThen (console_log ([CHR 0xE2, CHR 0x9C, CHR 0x85] @ '' AIR Token deployed to: '' @ address))
    (call w (ContractName air) (\<lambda>name.
     andThen (console_log (''Name: '' @ name))
    (call w (ContractSymbol air) (\<lambda>symbol.
     andThen (console_log (''Symbol: '' @ symbol))
    (call w (ContractTotalSupply air) (\<lambda>supply.
     call w (FormatEther supply) (\<lambda>total.
     andThen (console_log (''Total Supply: '' @ total))
    (andThen (writeFileSync w ''deployment-info.json''
                (JSON_stringify (deploymentInfo address deployer_address (toISOString (now w)))))
             (console_log deploy_saved_message)
     ))))))))))))))))))\<close>

definition deploy_js :: "world \<Rightarrow> proc" where
  "deploy_js w = try_catch (deploy_main w) (\<lambda>error. andThen (console_error error) (process_exit 1))"

text \<open>
  \<^verbatim>\<open>monitor.js\<close>, the program in the template \<open>monitorScript\<close>, generated for the RPC
  URL \<open>url\<close>.
\<close>

definition monitor :: "world \<Rightarrow> string \<Rightarrow> proc" where
  \<open>monitor w url =
     andThen (new_provider url)
    (try_catch
      (call w (RequireJson ''./deployment-info.json'') (\<lambda>address.
       call w (NewContract address) (\<lambda>contract.
       andThen (console_log monitor_started_message)
      (andThen (console_log (''Contract: '' @ address))
      (call w (ContractName contract) (\<lambda>name.
       andThen (console_log (''Name: '' @ name))
               (console_log (''BaseScan: https://sepolia.basescan.org/address/'' @ address))))))))
      (\<lambda>error. console_log (''Monitoring error: '' @ error)))\<close>

definition monitor_js :: "world \<Rightarrow> string \<Rightarrow> proc" where
  "monitor_js w url = monitor w url"

subsection \<open>Child processes\<close>

text \<open>
  The exit status of a Node process: 0 when the script runs to its end, the argument of
  \<^verbatim>\<open>process.exit\<close>, and 1 for an error nobody caught.
\<close>

definition exit_status :: "completion \<Rightarrow> nat" where
  "exit_status c = (case c of Normal \<Rightarrow> 0 | Throw m \<Rightarrow> 1 | Exit n \<Rightarrow> n)"

text \<open>
  The two commands that run a generated script. The other commands (\<^verbatim>\<open>npm install\<close>,
  \<^verbatim>\<open>npx hardhat compile\<close>) are external tools only.
\<close>

definition child_script :: "world \<Rightarrow> string \<Rightarrow> proc option" where
  \<open>child_script w command =
     (if command = ''node monitor.js''
        then Some (monitor_js w (or_else (env_RPC_URL w) ''https://sepolia.base.org''))
      else if command = ''npx hardhat run scripts/deploy.js --network baseSepolia''
        then Some (deploy_js w)
      else None)\<close>

text \<open>
  \<^verbatim>\<open>execSync(command, { stdio: 'inherit' })\<close> blocks until the child ends and throws when
  its status is not 0. The external tool comes first (for a script: the interpreter starting
  up and loading its modules); when it succeeds and the command runs a generated script, the
  script runs in the same directory. What the child did is recorded inside the
  \<open>ExecSync\<close> event; the child cannot change the working directory of its parent.
\<close>

definition execSync :: "world \<Rightarrow> string \<Rightarrow> proc" where
  \<open>execSync w command s =
     (case tool w command (nodes s) (cwd s) of (st, tree) \<Rightarrow>
        if st \<noteq> 0
          then (Throw (''Command failed: '' @ command),
                emit (ExecSync command [] st) (s\<lparr>nodes := tree\<rparr>))
        else (case child_script w command of
                None \<Rightarrow> (Normal, emit (ExecSync command [] 0) (s\<lparr>nodes := tree\<rparr>))
              | Some script \<Rightarrow>
                  (case script \<lparr>trace = [], nodes = tree, cwd = cwd s\<rparr> of (c, s') \<Rightarrow>
                     (if exit_status c = 0 then Normal else Throw (''Command failed: '' @ command),
                      emit (ExecSync command (trace s') (exit_status c)) (s\<lparr>nodes := nodes s'\<rparr>)))))\<close>

subsection \<open>Scaffold-and-deploy mode: the class CompleteDeployer\<close>

definition runCommand :: "world \<Rightarrow> string \<Rightarrow> proc" where
  \<open>runCommand w command =
     try_catch (execSync w command) (\<lambda>error. throw (''Command failed: '' @ command))\<close>

definition forEach :: "'a list \<Rightarrow> ('a \<Rightarrow> proc) \<Rightarrow> proc" where
  "forEach xs f = block (map f xs)"

definition createProjectStructure :: "deployer \<Rightarrow> world \<Rightarrow> proc" where
  \<open>createProjectStructure this w = block
     [console_log creating_structure_message,
      (\<lambda>s. if \<not> existsSync (projectName this) s then mkdirSync w (projectName this) s else skip s),
      chdir w (projectName this),
      forEach [''contracts'', ''scripts'', ''artifacts'', ''cache'']
        (\<lambda>dir s. if \<not> existsSync dir s then mkdirSync w dir s else skip s)]\<close>

definition installDependencies :: "deployer \<Rightarrow> world \<Rightarrow> proc" where
  \<open>installDependencies this w = block
     [console_log installing_message,
      writeFileSync w ''package.json'' (JSON_stringify packageJson),
      runCommand w ''npm install'']\<close>

definition createConfigFiles :: "deployer \<Rightarrow> world \<Rightarrow> proc" where
  \<open>createConfigFiles this w = block
     [console_log creating_config_message,
      writeFileSync w ''hardhat.config.js'' (hardhatConfig this),
      writeFileSync w ''contracts/AIR.sol'' airContract,
      writeFileSync w ''scripts/deploy.js'' deployScript,
      writeFileSync w ''.env.example'' (envTemplate this),
      writeFileSync w ''.gitignore'' gitignore]\<close>

definition deployContract :: "deployer \<Rightarrow> world \<Rightarrow> proc" where
  \<open>deployContract this w = block
     [console_log deploying_token_message,
      (\<lambda>s. if falsy (env_PRIVATE_KEY w) \<and> privateKey this = ''YOUR_PRIVATE_KEY_HERE''
           then throw credential_error s
           else skip s),
      runCommand w ''npx hardhat compile'',
      runCommand w ''npx hardhat run scripts/deploy.js --network baseSepolia'']\<close>

definition startMonitoring :: "deployer \<Rightarrow> world \<Rightarrow> proc" where
  \<open>startMonitoring this w = block
     [console_log monitoring_message,
      writeFileSync w ''monitor.js'' (monitorScript this),
      runCommand w ''node monitor.js'']\<close>

text \<open>The body of the \<^verbatim>\<open>try\<close> in \<^verbatim>\<open>run\<close>: the five steps and the closing message.\<close>

definition run_try :: "deployer \<Rightarrow> world \<Rightarrow> proc" where
  \<open>run_try this w = block
     [createProjectStructure this w,
      installDependencies this w,
      createConfigFiles this w,
      deployContract this w,
      startMonitoring this w,
      console_log complete_message]\<close>

definition run :: "deployer \<Rightarrow> world \<Rightarrow> proc" where
  \<open>run this w =
     andThen (console_log started_message)
       (try_catch (run_try this w)
          (\<lambda>error. andThen (console_error (failed_prefix @ error)) (process_exit 1)))\<close>

subsection \<open>The entry point\<close>

definition main :: "world \<Rightarrow> proc" where
  \<open>main w =
     (if ''--quick'' \<in> set (drop 2 (argv w)) then quickDeploy w
      else run (new_CompleteDeployer w) w)\<close>

definition initial :: "world \<Rightarrow> state" where
  "initial w = \<lparr>trace = [], nodes = fs0 w, cwd = cwd0 w\<rparr>"

text \<open>
  \<^verbatim>\<open>main().catch(console.error)\<close>: a rejection of \<^verbatim>\<open>main\<close> is printed, and the process
  then ends by itself. The result is the exit status of the process and the final state.
\<close>

definition program :: "world \<Rightarrow> nat \<times> state" where
  "program w = (case try_catch (main w) console_error (initial w) of (c, s) \<Rightarrow> (exit_status c, s))"

section \<open>Notions used to state and prove the properties\<close>

text \<open>
  \<open>failed e\<close>: the event is an operation that did not succeed. \<open>emits A p\<close>: whatever
  the state, the statement \<open>p\<close> only appends events that satisfy \<open>A\<close> to the trace.
  \<open>orderly p\<close>: the statement never ends the process by itself; when it completes normally
  none of its events failed; when it throws, either none of its events failed or the failed
  event is the last one, and for a failed command the message names the command.
  \<open>generated_files\<close> lists the files that the class writes, with their contents.
  \<open>started w\<close> is the state in which the \<^verbatim>\<open>try\<close> block of \<^verbatim>\<open>run\<close> starts.
  \<open>laid_out tree dir\<close>: in the file tree, \<open>dir\<close> and its subdirectories
  \<^verbatim>\<open>contracts\<close> and \<^verbatim>\<open>scripts\<close> are directories, and none of the paths that the
  script or its deployment script writes is one. \<open>gentle w\<close>: the operating system
  refuses nothing and the external tools leave the file tree as it is.
  \<open>monitor_events w url\<close> is what \<^verbatim>\<open>monitor.js\<close> does.
\<close>

definition emits :: "(event \<Rightarrow> bool) \<Rightarrow> proc \<Rightarrow> bool" where
  "emits A p = (\<forall>s. \<exists>new. trace (snd (p s)) = trace s @ new \<and> list_all A new)"

fun failed :: "event \<Rightarrow> bool" where
  "failed (Fs op (Some e)) = True"
| "failed (Sdk c (Inl e)) = True"
| "failed (ExecSync c evs n) = (n \<noteq> 0)"
| "failed e = False"

definition outcome_ok :: "event list \<Rightarrow> completion \<Rightarrow> bool" where
  \<open>outcome_ok new c =
     (case c of
        Normal \<Rightarrow> \<not> list_ex failed new
      | Throw m \<Rightarrow>
          \<not> list_ex failed new \<or>
          (\<exists>pre e. new = pre @ [e] \<and> failed e \<and> \<not> list_ex failed pre \<and>
             (\<forall>cmd evs n. e = ExecSync cmd evs n \<longrightarrow> m = ''Command failed: '' @ cmd))
      | Exit n \<Rightarrow> False)\<close>

definition orderly :: "proc \<Rightarrow> bool" where
  "orderly p = (\<forall>s. \<exists>new. trace (snd (p s)) = trace s @ new \<and> outcome_ok new (fst (p s)))"

definition generated_files :: "deployer \<Rightarrow> (string \<times> string) list" where
  \<open>generated_files this =
     [(''package.json'', JSON_stringify packageJson),
      (''hardhat.config.js'', hardhatConfig this),
      (''contracts/AIR.sol'', airContract),
      (''scripts/deploy.js'', deployScript),
      (''.env.example'', envTemplate this),
      (''.gitignore'', gitignore),
      (''monitor.js'', monitorScript this)]\<close>

definition started :: "world \<Rightarrow> state" where
  "started w = emit (Log started_message) (initial w)"

definition written_files :: "string list" where
  \<open>written_files =
     [''package.json'', ''hardhat.config.js'', ''contracts/AIR.sol'', ''scripts/deploy.js'',
      ''.env.example'', ''.gitignore'', ''monitor.js'', ''deployment-info.json'']\<close>

definition laid_out :: "(string list \<Rightarrow> node option) \<Rightarrow> string list \<Rightarrow> bool" where
  \<open>laid_out tree dir =
     (tree dir = Some Dir \<and>
      tree (dir @ [''contracts'']) = Some Dir \<and>
      tree (dir @ [''scripts'']) = Some Dir \<and>
      list_all (\<lambda>f. tree (dir @ split_path f) \<noteq> Some Dir) written_files)\<close>

definition gentle :: "world \<Rightarrow> bool" where
  "gentle w = ((\<forall>c op. os_error w c op = None) \<and> (\<forall>cmd t d. snd (tool w cmd t d) = t))"

definition monitor_events :: "world \<Rightarrow> string \<Rightarrow> event list" where
  "monitor_events w url = trace (snd (monitor_js w url \<lparr>trace = [], nodes = Map.empty, cwd = []\<rparr>))"


section \<open>Concrete worlds\<close>

text \<open>
  A world in which nothing fails: the script starts in an empty root directory, the
  operating system refuses nothing, every tool exits with status 0 and leaves the tree
  alone, and every SDK call answers \<open>v\<close>.
\<close>

definition calm :: world where
  \<open>calm =
     \<lparr>argv = [''node'', ''complete-deployer.js''], env_PRIVATE_KEY = Some ''0xabc'',
      env_RPC_URL = None, fs0 = (\<lambda>p. if p = [] then Some Dir else None), cwd0 = [],
      os_error = (\<lambda>c op. None), tool = (\<lambda>c t d. (0, t)), sdk = (\<lambda>c. Inr ''v''), now = 0\<rparr>\<close>

definition quick_argv :: "string list" where
  \<open>quick_argv = [''node'', ''complete-deployer.js'', ''--quick'']\<close>



definition node_missing :: world where
  \<open>node_missing = calm\<lparr>tool := (\<lambda>cmd t d. (if cmd = ''node monitor.js'' then 127 else 0, t))\<rparr>\<close>


definition other_key :: world where
  \<open>other_key = calm\<lparr>env_PRIVATE_KEY := Some ''0xdef''\<rparr>\<close>

text \<open>A state in which the project directory exists already, and is empty.\<close>

definition project_present :: state where
  \<open>project_present =
     \<lparr>trace = [], nodes = (\<lambda>p. if p = [] \<or> p = [''air-token-project''] then Some Dir else None),
      cwd = []\<rparr>\<close>

section \<open>Properties\<close>

subsection \<open>Statements that only emit events of one kind\<close>

lemma emitsI:
  "(\<And>s. \<exists>new. trace (snd (p s)) = trace s @ new \<and> list_all A new) \<Longrightarrow> emits A p"
  by (simp add: emits_def)

lemma emitsD:
  "emits A p \<Longrightarrow> \<exists>new. trace (snd (p s)) = trace s @ new \<and> list_all A new"
  by (simp add: emits_def)

lemma emits_skip: "emits A skip"
  by (simp add: emits_def skip_def)

lemma emits_throw: "emits A (throw m)"
  by (simp add: emits_def throw_def)

lemma emits_process_exit: "emits A (process_exit n)"
  by (simp add: emits_def process_exit_def)

lemma emits_console_log: "A (Log m) \<Longrightarrow> emits A (console_log m)"
  by (simp add: emits_def console_log_def emit_def)

lemma emits_console_error: "A (LogError m) \<Longrightarrow> emits A (console_error m)"
  by (simp add: emits_def console_error_def emit_def)

lemma emits_new_provider: "A (Sdk (NewJsonRpcProvider url) (Inr url)) \<Longrightarrow> emits A (new_provider url)"
  by (simp add: emits_def new_provider_def emit_def)

lemma emits_andThen:
  assumes p: "emits A p" and q: "emits A q"
  shows "emits A (andThen p q)"
proof (rule emitsI)
  fix s
  obtain c s' where ps: "p s = (c, s')" by (cases "p s")
  from emitsD [OF p, of s] ps obtain n1 where n1: "trace s' = trace s @ n1" "list_all A n1"
    by auto
  show "\<exists>new. trace (snd (andThen p q s)) = trace s @ new \<and> list_all A new"
  proof (cases c)
    case Normal
    from emitsD [OF q, of s'] obtain n2 where n2: "trace (snd (q s')) = trace s' @ n2" "list_all A n2"
      by auto
    have "trace (snd (andThen p q s)) = trace s @ (n1 @ n2)"
      using ps Normal n1 n2 by (simp add: andThen_def)
    moreover have "list_all A (n1 @ n2)" using n1 n2 by simp
    ultimately show ?thesis by blast
  next
    case (Throw m)
    then show ?thesis using ps n1 by (auto simp: andThen_def)
  next
    case (Exit n)
    then show ?thesis using ps n1 by (auto simp: andThen_def)
  qed
qed

lemma emits_block: "list_all (emits A) ps \<Longrightarrow> emits A (block ps)"
  by (induction ps) (simp_all add: emits_skip emits_andThen)

lemma emits_forEach: "(\<And>x. x \<in> set xs \<Longrightarrow> emits A (f x)) \<Longrightarrow> emits A (forEach xs f)"
  unfolding forEach_def by (rule emits_block) (simp add: list_all_iff)

lemma emits_try_catch:
  assumes p: "emits A p" and h: "\<And>m. emits A (h m)"
  shows "emits A (try_catch p h)"
proof (rule emitsI)
  fix s
  obtain c s' where ps: "p s = (c, s')" by (cases "p s")
  from emitsD [OF p, of s] ps obtain n1 where n1: "trace s' = trace s @ n1" "list_all A n1"
    by auto
  show "\<exists>new. trace (snd (try_catch p h s)) = trace s @ new \<and> list_all A new"
  proof (cases c)
    case (Throw m)
    from emitsD [OF h, of m s'] obtain n2
      where n2: "trace (snd (h m s')) = trace s' @ n2" "list_all A n2"
      by auto
    have "trace (snd (try_catch p h s)) = trace s @ (n1 @ n2)"
      using ps Throw n1 n2 by (simp add: try_catch_def)
    moreover have "list_all A (n1 @ n2)" using n1 n2 by simp
    ultimately show ?thesis by blast
  next
    case Normal
    then show ?thesis using ps n1 by (auto simp: try_catch_def)
  next
    case (Exit n)
    then show ?thesis using ps n1 by (auto simp: try_catch_def)
  qed
qed

lemma emits_if:
  "emits A p \<Longrightarrow> emits A q \<Longrightarrow> emits A (\<lambda>s. if b s then p s else q s)"
  by (simp add: emits_def)

lemma emits_call:
  assumes c: "\<And>r. A (Sdk c r)" and k: "\<And>v. emits A (k v)"
  shows "emits A (call w c k)"
proof (rule emitsI)
  fix s
  show "\<exists>new. trace (snd (call w c k s)) = trace s @ new \<and> list_all A new"
  proof (cases "sdk w c")
    case (Inl e)
    then show ?thesis using c by (simp add: call_def emit_def)
  next
    case (Inr v)
    from emitsD [OF k, of v "emit (Sdk c (Inr v)) s"] obtain n2
      where n2: "trace (snd (k v (emit (Sdk c (Inr v)) s))) = trace (emit (Sdk c (Inr v)) s) @ n2"
        "list_all A n2"
      by auto
    have "trace (snd (call w c k s)) = trace s @ (Sdk c (Inr v) # n2)"
      using Inr n2 by (simp add: call_def emit_def)
    moreover have "list_all A (Sdk c (Inr v) # n2)" using n2 c by simp
    ultimately show ?thesis by blast
  qed
qed

lemma emits_mkdirSync: "(\<And>r. A (Fs (Mkdir p) r)) \<Longrightarrow> emits A (mkdirSync w p)"
  by (simp add: emits_def mkdirSync_def fs_fail_def emit_def Let_def split: option.splits)

lemma emits_chdir: "(\<And>r. A (Fs (Chdir p) r)) \<Longrightarrow> emits A (chdir w p)"
  by (simp add: emits_def chdir_def fs_fail_def emit_def Let_def split: option.splits)

lemma emits_writeFileSync: "(\<And>r. A (Fs (WriteFile p d) r)) \<Longrightarrow> emits A (writeFileSync w p d)"
  by (simp add: emits_def writeFileSync_def fs_fail_def emit_def Let_def split: option.splits)

lemma emits_execSync: "(\<And>evs n. A (ExecSync cmd evs n)) \<Longrightarrow> emits A (execSync w cmd)"
  by (simp add: emits_def execSync_def emit_def split: prod.splits option.splits)

lemma emits_runCommand: "(\<And>evs n. A (ExecSync cmd evs n)) \<Longrightarrow> emits A (runCommand w cmd)"
  unfolding runCommand_def by (intro emits_try_catch emits_execSync emits_throw)

subsection \<open>What each step emits\<close>

lemma emits_createProjectStructure:
  assumes "\<And>m. A (Log m)" and "\<And>p r. A (Fs (Mkdir p) r)" and "\<And>p r. A (Fs (Chdir p) r)"
  shows "emits A (createProjectStructure this w)"
  unfolding createProjectStructure_def
  by (rule emits_block)
    (simp add: assms emits_console_log emits_chdir emits_if emits_mkdirSync emits_skip
      emits_forEach)

lemma emits_installDependencies:
  assumes "\<And>m. A (Log m)"
    and \<open>\<And>r. A (Fs (WriteFile ''package.json'' (JSON_stringify packageJson)) r)\<close>
    and \<open>\<And>evs n. A (ExecSync ''npm install'' evs n)\<close>
  shows "emits A (installDependencies this w)"
  unfolding installDependencies_def
  by (rule emits_block) (simp add: assms emits_console_log emits_writeFileSync emits_runCommand)

lemma emits_createConfigFiles:
  assumes "\<And>m. A (Log m)"
    and \<open>\<And>r. A (Fs (WriteFile ''hardhat.config.js'' (hardhatConfig this)) r)\<close>
    and \<open>\<And>r. A (Fs (WriteFile ''contracts/AIR.sol'' airContract) r)\<close>
    and \<open>\<And>r. A (Fs (WriteFile ''scripts/deploy.js'' deployScript) r)\<close>
    and \<open>\<And>r. A (Fs (WriteFile ''.env.example'' (envTemplate this)) r)\<close>
    and \<open>\<And>r. A (Fs (WriteFile ''.gitignore'' gitignore) r)\<close>
  shows "emits A (createConfigFiles this w)"
  unfolding createConfigFiles_def
  by (rule emits_block) (simp add: assms emits_console_log emits_writeFileSync)

lemma emits_deployContract:
  assumes "\<And>m. A (Log m)"
    and \<open>\<And>evs n. A (ExecSync ''npx hardhat compile'' evs n)\<close>
    and \<open>\<And>evs n. A (ExecSync ''npx hardhat run scripts/deploy.js --network baseSepolia'' evs n)\<close>
  shows "emits A (deployContract this w)"
  unfolding deployContract_def
  by (rule emits_block)
    (simp add: assms emits_console_log emits_runCommand emits_if emits_throw emits_skip)

lemma emits_startMonitoring:
  assumes "\<And>m. A (Log m)"
    and \<open>\<And>r. A (Fs (WriteFile ''monitor.js'' (monitorScript this)) r)\<close>
    and \<open>\<And>evs n. A (ExecSync ''node monitor.js'' evs n)\<close>
  shows "emits A (startMonitoring this w)"
  unfolding startMonitoring_def
  by (rule emits_block) (simp add: assms emits_console_log emits_writeFileSync emits_runCommand)

subsection \<open>Sequencing\<close>


lemma andThen_assoc: "andThen (andThen p q) r = andThen p (andThen q r)"
  by (rule ext) (simp add: andThen_def split: prod.splits completion.splits)




lemma emits_if_const: "emits A p \<Longrightarrow> emits A q \<Longrightarrow> emits A (if c then p else q)"
  by simp

lemma emits_quickDeploy:
  assumes "\<And>m. A (Log m)" and "\<And>c r. A (Sdk c r)"
  shows "emits A (quickDeploy w)"
  unfolding quickDeploy_def Let_def
  by (intro emits_andThen emits_call emits_if_const emits_console_log
      emits_new_provider emits_process_exit emits_skip assms)

lemma emits_run_try:
  assumes "\<And>m. A (Log m)" and "\<And>p r. A (Fs (Mkdir p) r)" and "\<And>p r. A (Fs (Chdir p) r)"
    and "\<And>p c r. (p, c) \<in> set (generated_files this) \<Longrightarrow> A (Fs (WriteFile p c) r)"
    and "\<And>cmd evs n. A (ExecSync cmd evs n)"
  shows "emits A (run_try this w)"
  unfolding run_try_def
  by (rule emits_block)
    (simp add: assms emits_createProjectStructure emits_installDependencies
      emits_createConfigFiles emits_deployContract emits_startMonitoring emits_console_log
      generated_files_def)

lemma emits_run:
  assumes "\<And>m. A (Log m)" and "\<And>m. A (LogError m)"
    and "\<And>p r. A (Fs (Mkdir p) r)" and "\<And>p r. A (Fs (Chdir p) r)"
    and "\<And>p c r. (p, c) \<in> set (generated_files this) \<Longrightarrow> A (Fs (WriteFile p c) r)"
    and "\<And>cmd evs n. A (ExecSync cmd evs n)"
  shows "emits A (run this w)"
  unfolding run_def
  by (intro emits_andThen emits_try_catch emits_run_try emits_console_log emits_console_error
      emits_process_exit assms)

subsection \<open>Orderly statements\<close>

lemma outcome_ok_append:
  assumes n1: "\<not> list_ex failed n1" and ok: "outcome_ok n2 c"
  shows "outcome_ok (n1 @ n2) c"
proof (cases c)
  case Normal
  then show ?thesis using n1 ok by (simp add: outcome_ok_def)
next
  case (Throw m)
  show ?thesis
  proof (cases "list_ex failed n2")
    case False
    then show ?thesis using n1 Throw by (simp add: outcome_ok_def)
  next
    case True
    with ok Throw obtain pre e where pe: "n2 = pre @ [e]" "failed e" "\<not> list_ex failed pre"
      \<open>\<forall>cmd evs n. e = ExecSync cmd evs n \<longrightarrow> m = ''Command failed: '' @ cmd\<close>
      unfolding outcome_ok_def by auto
    have "n1 @ n2 = (n1 @ pre) @ [e]" using pe by simp
    moreover have "\<not> list_ex failed (n1 @ pre)" using n1 pe by simp
    ultimately show ?thesis using pe Throw unfolding outcome_ok_def
      by (simp only: completion.case) blast
  qed
next
  case (Exit n)
  then show ?thesis using ok by (simp add: outcome_ok_def)
qed

lemma orderlyI:
  "(\<And>s. \<exists>new. trace (snd (p s)) = trace s @ new \<and> outcome_ok new (fst (p s))) \<Longrightarrow> orderly p"
  by (simp add: orderly_def)

lemma orderlyD:
  "orderly p \<Longrightarrow> \<exists>new. trace (snd (p s)) = trace s @ new \<and> outcome_ok new (fst (p s))"
  by (simp add: orderly_def)

lemma orderly_skip: "orderly skip"
  by (simp add: orderly_def outcome_ok_def skip_def)

lemma orderly_throw: "orderly (throw m)"
  by (simp add: orderly_def outcome_ok_def throw_def)

lemma orderly_console_log: "orderly (console_log m)"
  by (simp add: orderly_def outcome_ok_def console_log_def emit_def)

lemma orderly_if: "orderly p \<Longrightarrow> orderly q \<Longrightarrow> orderly (\<lambda>s. if b s then p s else q s)"
  by (simp add: orderly_def)

lemma orderly_mkdirSync: "orderly (mkdirSync w p)"
  by (rule orderlyI)
    (simp add: outcome_ok_def mkdirSync_def fs_fail_def emit_def Let_def split: option.splits)

lemma orderly_chdir: "orderly (chdir w p)"
  by (rule orderlyI)
    (simp add: outcome_ok_def chdir_def fs_fail_def emit_def Let_def split: option.splits)

lemma orderly_writeFileSync: "orderly (writeFileSync w p d)"
  by (rule orderlyI)
    (simp add: outcome_ok_def writeFileSync_def fs_fail_def emit_def Let_def split: option.splits)

lemma orderly_runCommand: "orderly (runCommand w cmd)"
  by (rule orderlyI)
    (simp add: outcome_ok_def runCommand_def try_catch_def execSync_def throw_def emit_def
      split: prod.splits option.splits)

lemma orderly_andThen:
  assumes p: "orderly p" and q: "orderly q"
  shows "orderly (andThen p q)"
proof (rule orderlyI)
  fix s
  obtain c s' where ps: "p s = (c, s')" by (cases "p s")
  from orderlyD [OF p, of s] ps obtain n1 where n1: "trace s' = trace s @ n1" "outcome_ok n1 c"
    by auto
  show "\<exists>new. trace (snd (andThen p q s)) = trace s @ new \<and> outcome_ok new (fst (andThen p q s))"
  proof (cases c)
    case Normal
    then have clean: "\<not> list_ex failed n1" using n1 by (simp add: outcome_ok_def)
    from orderlyD [OF q, of s'] obtain n2
      where n2: "trace (snd (q s')) = trace s' @ n2" "outcome_ok n2 (fst (q s'))"
      by auto
    have "andThen p q s = q s'" using ps Normal by (simp add: andThen_def)
    moreover have "trace (snd (q s')) = trace s @ (n1 @ n2)" using n1 n2 by simp
    moreover have "outcome_ok (n1 @ n2) (fst (q s'))" using clean n2(2) by (rule outcome_ok_append)
    ultimately show ?thesis by metis
  next
    case (Throw m)
    then have "andThen p q s = (c, s')" using ps by (simp add: andThen_def)
    then show ?thesis using n1 by auto
  next
    case (Exit n)
    then show ?thesis using n1 by (simp add: outcome_ok_def)
  qed
qed

lemma orderly_block: "list_all orderly ps \<Longrightarrow> orderly (block ps)"
  by (induction ps) (simp_all add: orderly_skip orderly_andThen)

lemma orderly_forEach: "(\<And>x. orderly (f x)) \<Longrightarrow> orderly (forEach xs f)"
  unfolding forEach_def by (rule orderly_block) (simp add: list_all_iff)

lemma orderly_createProjectStructure: "orderly (createProjectStructure this w)"
  unfolding createProjectStructure_def
  by (rule orderly_block)
    (simp add: orderly_console_log orderly_chdir orderly_if orderly_mkdirSync orderly_skip
      orderly_forEach)

lemma orderly_installDependencies: "orderly (installDependencies this w)"
  unfolding installDependencies_def
  by (rule orderly_block) (simp add: orderly_console_log orderly_writeFileSync orderly_runCommand)

lemma orderly_createConfigFiles: "orderly (createConfigFiles this w)"
  unfolding createConfigFiles_def
  by (rule orderly_block) (simp add: orderly_console_log orderly_writeFileSync)

lemma orderly_deployContract: "orderly (deployContract this w)"
  unfolding deployContract_def
  by (rule orderly_block)
    (simp add: orderly_console_log orderly_runCommand orderly_if orderly_throw orderly_skip)

lemma orderly_startMonitoring: "orderly (startMonitoring this w)"
  unfolding startMonitoring_def
  by (rule orderly_block) (simp add: orderly_console_log orderly_writeFileSync orderly_runCommand)

lemma orderly_run_try: "orderly (run_try this w)"
  unfolding run_try_def
  by (rule orderly_block)
    (simp add: orderly_createProjectStructure orderly_installDependencies
      orderly_createConfigFiles orderly_deployContract orderly_startMonitoring orderly_console_log)

subsection \<open>The outcome of scaffold-and-deploy mode\<close>

lemma program_scaffold:
  assumes \<open>''--quick'' \<notin> set (drop 2 (argv w))\<close>
  shows "program w =
     (case run_try (new_CompleteDeployer w) w (started w) of
        (Normal, s) \<Rightarrow> (0, s)
      | (Throw m, s) \<Rightarrow> (1, emit (LogError (failed_prefix @ m)) s)
      | (Exit n, s) \<Rightarrow> (n, s))"
  using assms
  by (simp add: program_def main_def run_def try_catch_def andThen_def console_log_def
      console_error_def process_exit_def exit_status_def started_def
      split: prod.splits completion.splits)

lemma trace_started: "trace (started w) = [Log started_message]"
  by (simp add: started_def initial_def emit_def)

lemma scaffold_cases:
  assumes scaffold: \<open>''--quick'' \<notin> set (drop 2 (argv w))\<close>
  obtains (completed) s new where "program w = (0, s)"
      "run_try (new_CompleteDeployer w) w (started w) = (Normal, s)"
      "trace s = Log started_message # new" "\<not> list_ex failed new"
  | (thrown) s new m where "program w = (1, emit (LogError (failed_prefix @ m)) s)"
      "run_try (new_CompleteDeployer w) w (started w) = (Throw m, s)"
      "trace s = Log started_message # new" "outcome_ok new (Throw m)"
proof -
  obtain c s where r: "run_try (new_CompleteDeployer w) w (started w) = (c, s)"
    by (cases "run_try (new_CompleteDeployer w) w (started w)")
  from orderlyD [OF orderly_run_try, of "new_CompleteDeployer w" w "started w"] r
  obtain new where new: "trace s = Log started_message # new" "outcome_ok new c"
    by (auto simp: trace_started)
  show thesis
  proof (cases c)
    case Normal
    then show ?thesis
      using completed [of s new] r new program_scaffold [OF scaffold]
      by (simp add: outcome_ok_def)
  next
    case (Throw m)
    then show ?thesis
      using thrown [of m s new] r new program_scaffold [OF scaffold] by simp
  next
    case (Exit n)
    then show ?thesis using new by (simp add: outcome_ok_def)
  qed
qed

lemma failing_exec_listed:
  assumes "ExecSync cmd evs n \<in> set xs" and "n \<noteq> 0"
  shows "list_ex failed xs"
proof -
  have "failed (ExecSync cmd evs n)" using assms(2) by simp
  with assms(1) show ?thesis unfolding list_ex_iff by blast
qed

subsection \<open>Runs in which nothing goes wrong before the monitoring\<close>

lemma block_Cons_Normal: "p s = (Normal, s') \<Longrightarrow> block (p # ps) s = block ps s'"
  by (simp add: andThen_def)

lemma block_Cons_Throw: "p s = (Throw m, s') \<Longrightarrow> block (p # ps) s = (Throw m, s')"
  by (simp add: andThen_def)

lemma laid_out_write:
  assumes "laid_out tree dir" and "f \<in> set written_files"
  shows "laid_out (tree(dir @ split_path f \<mapsto> File d)) dir"
  using assms by (auto simp: laid_out_def written_files_def)

lemma writeFileSync_laid_out:
  assumes lo: "laid_out (nodes s) (cwd s)" and g: "gentle w" and f: "f \<in> set written_files"
  shows "writeFileSync w f d s =
           (Normal, s\<lparr>trace := trace s @ [Fs (WriteFile f d) None],
                      nodes := (nodes s)(cwd s @ split_path f \<mapsto> File d)\<rparr>)"
proof -
  have os: "os_error w (cwd s) (WriteFile f d) = None" using g by (simp add: gentle_def)
  have nd: "nodes s (cwd s @ split_path f) \<noteq> Some Dir"
    using lo f by (simp add: laid_out_def list_all_iff)
  have parent: "nodes s (butlast (cwd s @ split_path f)) = Some Dir"
    using lo f by (auto simp: laid_out_def written_files_def butlast_append)
  show ?thesis
    using os nd parent by (simp add: writeFileSync_def resolve_def emit_def Let_def)
qed

lemma runCommand_tool:
  assumes g: "gentle w" and st: "fst (tool w cmd (nodes s) (cwd s)) = 0"
    and none: "child_script w cmd = None"
  shows "runCommand w cmd s = (Normal, s\<lparr>trace := trace s @ [ExecSync cmd [] 0]\<rparr>)"
proof -
  have "tool w cmd (nodes s) (cwd s) = (0, nodes s)"
    using g st by (metis gentle_def prod.collapse)
  then show ?thesis using none
    by (simp add: runCommand_def try_catch_def execSync_def emit_def)
qed

lemma runCommand_fails:
  assumes g: "gentle w" and st: "fst (tool w cmd (nodes s) (cwd s)) = n" and n: "n \<noteq> 0"
  shows \<open>runCommand w cmd s =
           (Throw (''Command failed: '' @ cmd), s\<lparr>trace := trace s @ [ExecSync cmd [] n]\<rparr>)\<close>
proof -
  have "tool w cmd (nodes s) (cwd s) = (n, nodes s)"
    using g st by (metis gentle_def prod.collapse)
  then show ?thesis using n
    by (simp add: runCommand_def try_catch_def execSync_def throw_def emit_def)
qed

lemma runCommand_script:
  assumes g: "gentle w" and st: "fst (tool w cmd (nodes s) (cwd s)) = 0"
    and script: "child_script w cmd = Some script"
    and ran: "script \<lparr>trace = [], nodes = nodes s, cwd = cwd s\<rparr> = (c, s')"
    and ok: "exit_status c = 0"
  shows "runCommand w cmd s =
           (Normal, s\<lparr>trace := trace s @ [ExecSync cmd (trace s') 0], nodes := nodes s'\<rparr>)"
proof -
  have "tool w cmd (nodes s) (cwd s) = (0, nodes s)"
    using g st by (metis gentle_def prod.collapse)
  then show ?thesis using script ran ok
    by (simp add: runCommand_def try_catch_def execSync_def emit_def)
qed

lemma child_script_simps:
  \<open>child_script w ''npm install'' = None\<close>
  \<open>child_script w ''npx hardhat compile'' = None\<close>
  \<open>child_script w ''npx hardhat run scripts/deploy.js --network baseSepolia'' = Some (deploy_js w)\<close>
  \<open>child_script w ''node monitor.js'' =
     Some (monitor_js w (or_else (env_RPC_URL w) ''https://sepolia.base.org''))\<close>
  by (simp_all add: child_script_def)

lemma createProjectStructure_fresh:
  assumes g: "gentle w"
    and here: "nodes s (cwd s) = Some Dir"
    and vacant: \<open>\<And>p. nodes s (cwd s @ ''air-token-project'' # p) = None\<close>
  obtains s' where "createProjectStructure (new_CompleteDeployer w) w s = (Normal, s')"
    and "laid_out (nodes s') (cwd s')"
proof -
  have os: "\<And>c op. os_error w c op = None" using g by (simp add: gentle_def)
  have n0: \<open>nodes s (cwd s @ [''air-token-project'']) = None\<close> by (rule vacant)
  have n1: \<open>\<And>x. nodes s (cwd s @ [''air-token-project'', x]) = None\<close> by (rule vacant)
  have n2: \<open>\<And>x y. nodes s (cwd s @ [''air-token-project'', x, y]) = None\<close> by (rule vacant)
  let ?s' = "snd (createProjectStructure (new_CompleteDeployer w) w s)"
  have "fst (createProjectStructure (new_CompleteDeployer w) w s) = Normal
          \<and> laid_out (nodes ?s') (cwd ?s')"
    using here
    by (simp add: createProjectStructure_def new_CompleteDeployer_def forEach_def andThen_def
        console_log_def skip_def existsSync_def mkdirSync_def chdir_def resolve_def Let_def
        emit_def os n0 n1 n2 butlast_append laid_out_def written_files_def
        cong: prod.case_cong_weak)
  then show thesis using that [of ?s'] by (metis prod.collapse)
qed

lemma monitor_js_result:
  "monitor_js w url s = (Normal, s\<lparr>trace := trace s @ monitor_events w url\<rparr>)"
  by (cases s)
    (simp add: monitor_events_def monitor_js_def monitor_def andThen_def try_catch_def
      call_def console_log_def new_provider_def emit_def split: sum.splits)


lemma installDependencies_laid_out:
  assumes lo: "laid_out (nodes s) (cwd s)" and g: "gentle w"
    and npm: \<open>\<And>t d. fst (tool w ''npm install'' t d) = 0\<close>
  obtains s' where "installDependencies this w s = (Normal, s')"
    and "laid_out (nodes s') (cwd s')"
proof -
  let ?s' = "snd (installDependencies this w s)"
  have mem: \<open>''package.json'' \<in> set written_files\<close> by (simp add: written_files_def)
  have "fst (installDependencies this w s) = Normal \<and> laid_out (nodes ?s') (cwd ?s')"
    by (simp add: installDependencies_def andThen_def console_log_def skip_def emit_def
        writeFileSync_laid_out laid_out_write runCommand_tool child_script_simps lo g npm mem
        del: split_path.simps cong: prod.case_cong_weak)
  then show thesis using that [of ?s'] by (metis prod.collapse)
qed

lemma createConfigFiles_laid_out:
  assumes lo: "laid_out (nodes s) (cwd s)" and g: "gentle w"
  obtains s' where "createConfigFiles this w s = (Normal, s')"
    and "laid_out (nodes s') (cwd s')"
proof -
  let ?s' = "snd (createConfigFiles this w s)"
  have mem: \<open>''hardhat.config.js'' \<in> set written_files\<close> \<open>''contracts/AIR.sol'' \<in> set written_files\<close>
    \<open>''scripts/deploy.js'' \<in> set written_files\<close> \<open>''.env.example'' \<in> set written_files\<close>
    \<open>''.gitignore'' \<in> set written_files\<close>
    by (simp_all add: written_files_def)
  have "fst (createConfigFiles this w s) = Normal \<and> laid_out (nodes ?s') (cwd ?s')"
    by (simp add: createConfigFiles_def andThen_def console_log_def skip_def emit_def
        writeFileSync_laid_out laid_out_write lo g mem
        del: split_path.simps cong: prod.case_cong_weak)
  then show thesis using that [of ?s'] by (metis prod.collapse)
qed

lemma deploy_js_succeeds:
  assumes lo: "laid_out (nodes s) (cwd s)" and g: "gentle w"
    and sdk: "\<And>c. (\<forall>p. c \<noteq> RequireJson p) \<Longrightarrow> sdk w c = Inr (answer c)"
  obtains s' where "deploy_js w s = (Normal, s')" and "laid_out (nodes s') (cwd s')"
    and "cwd s' = cwd s"
proof -
  let ?s' = "snd (deploy_js w s)"
  have mem: \<open>''deployment-info.json'' \<in> set written_files\<close> by (simp add: written_files_def)
  have "fst (deploy_js w s) = Normal \<and> laid_out (nodes ?s') (cwd ?s') \<and> cwd ?s' = cwd s"
    by (simp add: deploy_js_def deploy_main_def try_catch_def andThen_def call_def sdk
        console_log_def emit_def writeFileSync_laid_out laid_out_write lo g mem
        del: split_path.simps cong: prod.case_cong_weak)
  then show thesis using that [of ?s'] by (metis prod.collapse)
qed

lemma deployContract_laid_out:
  assumes lo: "laid_out (nodes s) (cwd s)" and g: "gentle w"
    and key: "\<not> falsy (env_PRIVATE_KEY w)"
    and compile: \<open>\<And>t d. fst (tool w ''npx hardhat compile'' t d) = 0\<close>
    and hardhat: \<open>\<And>t d. fst (tool w ''npx hardhat run scripts/deploy.js --network baseSepolia'' t d) = 0\<close>
    and sdk: "\<And>c. (\<forall>p. c \<noteq> RequireJson p) \<Longrightarrow> sdk w c = Inr (answer c)"
  obtains s' where "deployContract this w s = (Normal, s')"
    and "laid_out (nodes s') (cwd s')"
proof -
  let ?s1 = \<open>s\<lparr>trace := trace s @ [Log deploying_token_message, ExecSync ''npx hardhat compile'' [] 0]\<rparr>\<close>
  have "laid_out (nodes \<lparr>trace = [], nodes = nodes ?s1, cwd = cwd ?s1\<rparr>)
          (cwd \<lparr>trace = [], nodes = nodes ?s1, cwd = cwd ?s1\<rparr>)"
    using lo by simp
  from deploy_js_succeeds [OF this g sdk] obtain sd
    where sd: "deploy_js w \<lparr>trace = [], nodes = nodes ?s1, cwd = cwd ?s1\<rparr> = (Normal, sd)"
      "laid_out (nodes sd) (cwd sd)" "cwd sd = cwd s"
    by auto
  have run: \<open>runCommand w ''npx hardhat run scripts/deploy.js --network baseSepolia'' ?s1 =
      (Normal, ?s1\<lparr>trace := trace ?s1 @ [ExecSync ''npx hardhat run scripts/deploy.js --network baseSepolia'' (trace sd) 0],
                   nodes := nodes sd\<rparr>)\<close>
    by (rule runCommand_script [OF g hardhat child_script_simps(3) sd(1)])
      (simp add: exit_status_def)
  let ?s' = \<open>?s1\<lparr>trace := trace ?s1 @ [ExecSync ''npx hardhat run scripts/deploy.js --network baseSepolia'' (trace sd) 0],
                   nodes := nodes sd\<rparr>\<close>
  have "deployContract this w s = (Normal, ?s')"
    using key run
    by (simp add: deployContract_def andThen_def console_log_def skip_def emit_def
        runCommand_tool [OF g compile child_script_simps(2)] cong: prod.case_cong_weak)
  moreover have "laid_out (nodes ?s') (cwd ?s')" using sd by simp
  ultimately show thesis using that by blast
qed

lemma startMonitoring_laid_out:
  assumes lo: "laid_out (nodes s) (cwd s)" and g: "gentle w"
    and node: \<open>\<And>t d. fst (tool w ''node monitor.js'' t d) = n\<close>
  shows \<open>startMonitoring this w s =
    (if n = 0 then Normal else Throw ''Command failed: node monitor.js'',
     s\<lparr>trace := trace s @
          [Log monitoring_message,
           Fs (WriteFile ''monitor.js'' (monitorScript this)) None,
           ExecSync ''node monitor.js''
             (if n = 0 then monitor_events w (or_else (env_RPC_URL w) ''https://sepolia.base.org'') else []) n],
        nodes := (nodes s)(cwd s @ split_path ''monitor.js'' \<mapsto> File (monitorScript this))\<rparr>)\<close>
proof -
  have mem: \<open>''monitor.js'' \<in> set written_files\<close> by (simp add: written_files_def)
  let ?s1 = \<open>s\<lparr>trace := trace s @ [Log monitoring_message, Fs (WriteFile ''monitor.js'' (monitorScript this)) None],
        nodes := (nodes s)(cwd s @ split_path ''monitor.js'' \<mapsto> File (monitorScript this))\<rparr>\<close>
  have step: \<open>startMonitoring this w s = runCommand w ''node monitor.js'' ?s1\<close>
    by (simp add: startMonitoring_def andThen_def console_log_def skip_def emit_def
        writeFileSync_laid_out lo g mem
        del: split_path.simps cong: prod.case_cong_weak split: prod.splits completion.splits)
  show ?thesis
  proof (cases "n = 0")
    case True
    have \<open>runCommand w ''node monitor.js'' ?s1 =
        (Normal, ?s1\<lparr>trace := trace ?s1 @
            [ExecSync ''node monitor.js''
               (trace (\<lparr>trace = [], nodes = nodes ?s1, cwd = cwd ?s1\<rparr>
                  \<lparr>trace := trace \<lparr>trace = [], nodes = nodes ?s1, cwd = cwd ?s1\<rparr>
                     @ monitor_events w (or_else (env_RPC_URL w) ''https://sepolia.base.org'')\<rparr>)) 0],
          nodes := nodes (\<lparr>trace = [], nodes = nodes ?s1, cwd = cwd ?s1\<rparr>
                  \<lparr>trace := trace \<lparr>trace = [], nodes = nodes ?s1, cwd = cwd ?s1\<rparr>
                     @ monitor_events w (or_else (env_RPC_URL w) ''https://sepolia.base.org'')\<rparr>)\<rparr>)\<close>
      using node True
      by (intro runCommand_script [OF g _ child_script_simps(4) monitor_js_result])
        (simp_all add: exit_status_def)
    then show ?thesis using True step by (simp del: split_path.simps)
  next
    case False
    have \<open>runCommand w ''node monitor.js'' ?s1 =
           (Throw (''Command failed: '' @ ''node monitor.js''),
            ?s1\<lparr>trace := trace ?s1 @ [ExecSync ''node monitor.js'' [] n]\<rparr>)\<close>
      using node False by (intro runCommand_fails [OF g]) simp_all
    then show ?thesis using False step by (simp del: split_path.simps)
  qed
qed

text \<open>
  A run in a gentle world, in a directory where the project does not exist yet, with a
  credential, with tools that succeed and an SDK that answers every call of the deployment:
  the first four steps complete, and the outcome is decided by \<^verbatim>\<open>node monitor.js\<close>.
\<close>

lemma scaffold_reaches_monitoring:
  assumes g: "gentle w"
    and here: "fs0 w (cwd0 w) = Some Dir"
    and vacant: \<open>\<And>p. fs0 w (cwd0 w @ ''air-token-project'' # p) = None\<close>
    and key: "\<not> falsy (env_PRIVATE_KEY w)"
    and npm: \<open>\<And>t d. fst (tool w ''npm install'' t d) = 0\<close>
    and compile: \<open>\<And>t d. fst (tool w ''npx hardhat compile'' t d) = 0\<close>
    and hardhat: \<open>\<And>t d. fst (tool w ''npx hardhat run scripts/deploy.js --network baseSepolia'' t d) = 0\<close>
    and sdk: "\<And>c. (\<forall>p. c \<noteq> RequireJson p) \<Longrightarrow> sdk w c = Inr (answer c)"
  obtains s4 where
    "run_try (new_CompleteDeployer w) w (started w) =
       block [startMonitoring (new_CompleteDeployer w) w, console_log complete_message] s4"
    and "laid_out (nodes s4) (cwd s4)"
proof -
  let ?dep = "new_CompleteDeployer w"
  have h0: "nodes (started w) (cwd (started w)) = Some Dir"
    using here by (simp add: started_def initial_def emit_def)
  have v0: \<open>\<And>p. nodes (started w) (cwd (started w) @ ''air-token-project'' # p) = None\<close>
    using vacant by (simp add: started_def initial_def emit_def)
  from createProjectStructure_fresh [OF g h0 v0] obtain s1
    where s1: "createProjectStructure ?dep w (started w) = (Normal, s1)"
      "laid_out (nodes s1) (cwd s1)" by blast
  from installDependencies_laid_out [OF s1(2) g npm] obtain s2
    where s2: "installDependencies ?dep w s1 = (Normal, s2)" "laid_out (nodes s2) (cwd s2)"
    by blast
  from createConfigFiles_laid_out [OF s2(2) g] obtain s3
    where s3: "createConfigFiles ?dep w s2 = (Normal, s3)" "laid_out (nodes s3) (cwd s3)"
    by blast
  from deployContract_laid_out [OF s3(2) g key compile hardhat sdk] obtain s4
    where s4: "deployContract ?dep w s3 = (Normal, s4)" "laid_out (nodes s4) (cwd s4)"
    by blast
  have "run_try ?dep w (started w) =
          block [startMonitoring ?dep w, console_log complete_message] s4"
    unfolding run_try_def
    by (simp add: andThen_def s1(1) s2(1) s3(1) s4(1))
  then show thesis using that s4(2) by blast
qed

lemma scaffold_run:
  assumes scaffold: \<open>''--quick'' \<notin> set (drop 2 (argv w))\<close>
    and g: "gentle w"
    and here: "fs0 w (cwd0 w) = Some Dir"
    and vacant: \<open>\<And>p. fs0 w (cwd0 w @ ''air-token-project'' # p) = None\<close>
    and key: "\<not> falsy (env_PRIVATE_KEY w)"
    and npm: \<open>\<And>t d. fst (tool w ''npm install'' t d) = 0\<close>
    and compile: \<open>\<And>t d. fst (tool w ''npx hardhat compile'' t d) = 0\<close>
    and hardhat: \<open>\<And>t d. fst (tool w ''npx hardhat run scripts/deploy.js --network baseSepolia'' t d) = 0\<close>
    and sdk: "\<And>c. (\<forall>p. c \<noteq> RequireJson p) \<Longrightarrow> sdk w c = Inr (answer c)"
    and node: \<open>\<And>t d. fst (tool w ''node monitor.js'' t d) = n\<close>
  shows \<open>fst (program w) = (if n = 0 then 0 else 1)\<close>
    and \<open>\<exists>pre. trace (snd (program w)) =
            pre @ [Fs (WriteFile ''monitor.js'' (monitorScript (new_CompleteDeployer w))) None,
                   ExecSync ''node monitor.js''
                     (if n = 0 then monitor_events w (or_else (env_RPC_URL w) ''https://sepolia.base.org'')
                      else []) n,
                   if n = 0 then Log complete_message
                   else LogError (failed_prefix @ ''Command failed: node monitor.js'')]\<close>
proof -
  from scaffold_reaches_monitoring [OF g here vacant key npm compile hardhat sdk] obtain s4
    where s4: "run_try (new_CompleteDeployer w) w (started w) =
       block [startMonitoring (new_CompleteDeployer w) w, console_log complete_message] s4"
      "laid_out (nodes s4) (cwd s4)" by blast
  note mon = startMonitoring_laid_out [OF s4(2) g node, of "new_CompleteDeployer w"]
  show \<open>fst (program w) = (if n = 0 then 0 else 1)\<close>
    using mon
    by (simp add: program_scaffold [OF scaffold] s4(1) andThen_def console_log_def emit_def
        skip_def del: split_path.simps)
  show \<open>\<exists>pre. trace (snd (program w)) =
            pre @ [Fs (WriteFile ''monitor.js'' (monitorScript (new_CompleteDeployer w))) None,
                   ExecSync ''node monitor.js''
                     (if n = 0 then monitor_events w (or_else (env_RPC_URL w) ''https://sepolia.base.org'')
                      else []) n,
                   if n = 0 then Log complete_message
                   else LogError (failed_prefix @ ''Command failed: node monitor.js'')]\<close>
    using mon
    by (simp add: program_scaffold [OF scaffold] s4(1) andThen_def console_log_def emit_def
        skip_def del: split_path.simps)
qed

lemma monitor_events_nonempty: "monitor_events w url \<noteq> []"
  by (simp add: monitor_events_def monitor_js_def monitor_def andThen_def try_catch_def
      call_def console_log_def new_provider_def emit_def split: sum.splits)



subsection \<open>Three concrete runs\<close>

lemma node_missing_run:
  \<open>''--quick'' \<notin> set (drop 2 (argv node_missing))\<close>
  \<open>ExecSync ''node monitor.js'' [] 127 \<in> set (trace (snd (program node_missing)))\<close>
proof -
  show \<open>''--quick'' \<notin> set (drop 2 (argv node_missing))\<close>
    by (simp add: node_missing_def calm_def)
  have \<open>\<exists>pre. trace (snd (program node_missing)) =
            pre @ [Fs (WriteFile ''monitor.js'' (monitorScript (new_CompleteDeployer node_missing))) None,
                   ExecSync ''node monitor.js''
                     (if (127::nat) = 0 then monitor_events node_missing (or_else (env_RPC_URL node_missing) ''https://sepolia.base.org'')
                      else []) 127,
                   if (127::nat) = 0 then Log complete_message
                   else LogError (failed_prefix @ ''Command failed: node monitor.js'')]\<close>
    by (rule scaffold_run(2) [where answer = "\<lambda>c. ''v''"])
      (simp_all add: node_missing_def calm_def gentle_def falsy_def)
  then show \<open>ExecSync ''node monitor.js'' [] 127 \<in> set (trace (snd (program node_missing)))\<close>
    by auto
qed



lemma calm_run:
  \<open>''--quick'' \<notin> set (drop 2 (argv calm))\<close>
  \<open>Fs (WriteFile ''monitor.js'' (monitorScript (new_CompleteDeployer calm))) None
     \<in> set (trace (snd (program calm)))\<close>
proof -
  show \<open>''--quick'' \<notin> set (drop 2 (argv calm))\<close> by (simp add: calm_def)
  have \<open>\<exists>pre. trace (snd (program calm)) =
            pre @ [Fs (WriteFile ''monitor.js'' (monitorScript (new_CompleteDeployer calm))) None,
                   ExecSync ''node monitor.js''
                     (if (0::nat) = 0 then monitor_events calm (or_else (env_RPC_URL calm) ''https://sepolia.base.org'')
                      else []) 0,
                   if (0::nat) = 0 then Log complete_message
                   else LogError (failed_prefix @ ''Command failed: node monitor.js'')]\<close>
    by (rule scaffold_run(2) [where answer = "\<lambda>c. ''v''"])
      (simp_all add: calm_def gentle_def falsy_def)
  then show \<open>Fs (WriteFile ''monitor.js'' (monitorScript (new_CompleteDeployer calm))) None
     \<in> set (trace (snd (program calm)))\<close>
    by auto
qed

lemma other_key_run:
  \<open>''--quick'' \<notin> set (drop 2 (argv other_key))\<close>
  \<open>Fs (WriteFile ''monitor.js'' (monitorScript (new_CompleteDeployer other_key))) None
     \<in> set (trace (snd (program other_key)))\<close>
proof -
  show \<open>''--quick'' \<notin> set (drop 2 (argv other_key))\<close> by (simp add: other_key_def calm_def)
  have \<open>\<exists>pre. trace (snd (program other_key)) =
            pre @ [Fs (WriteFile ''monitor.js'' (monitorScript (new_CompleteDeployer other_key))) None,
                   ExecSync ''node monitor.js''
                     (if (0::nat) = 0 then monitor_events other_key (or_else (env_RPC_URL other_key) ''https://sepolia.base.org'')
                      else []) 0,
                   if (0::nat) = 0 then Log complete_message
                   else LogError (failed_prefix @ ''Command failed: node monitor.js'')]\<close>
    by (rule scaffold_run(2) [where answer = "\<lambda>c. ''v''"])
      (simp_all add: other_key_def calm_def gentle_def falsy_def)
  then show \<open>Fs (WriteFile ''monitor.js'' (monitorScript (new_CompleteDeployer other_key))) None
     \<in> set (trace (snd (program other_key)))\<close>
    by auto
qed

subsection \<open>The files that are written\<close>

lemma program_run:
  assumes \<open>''--quick'' \<notin> set (drop 2 (argv w))\<close>
  shows "snd (program w) = snd (run (new_CompleteDeployer w) w (initial w))"
  using assms
  by (simp add: program_def main_def run_def try_catch_def andThen_def console_log_def
      console_error_def process_exit_def split: prod.splits completion.splits)

lemma distinct_generated_files: "distinct (map fst (generated_files this))"
  by (simp add: generated_files_def)

lemma generated_files_cong:
  assumes "rpcUrl this1 = rpcUrl this2"
  shows "generated_files this1 = generated_files this2"
proof -
  have "hardhatConfig this1 = hardhatConfig this2"
    unfolding hardhatConfig_def by (simp only: assms)
  moreover have "envTemplate this1 = envTemplate this2"
    unfolding envTemplate_def by (simp only: assms)
  moreover have "monitorScript this1 = monitorScript this2"
    unfolding monitorScript_def by (simp only: assms)
  ultimately show ?thesis by (simp only: generated_files_def)
qed

lemma generated_files_content:
  assumes "(p, c1) \<in> set (generated_files this)" and "(p, c2) \<in> set (generated_files this)"
  shows "c1 = c2"
proof -
  have "map_of (generated_files this) p = Some c1"
    by (rule map_of_is_SomeI [OF distinct_generated_files assms(1)])
  moreover have "map_of (generated_files this) p = Some c2"
    by (rule map_of_is_SomeI [OF distinct_generated_files assms(2)])
  ultimately show ?thesis by simp
qed

lemma run_writes:
  assumes empty: "trace s = []"
    and wr: "Fs (WriteFile p c) r \<in> set (trace (snd (run this w s)))"
  shows "(p, c) \<in> set (generated_files this)"
proof -
  let ?A = "\<lambda>e. \<forall>p c r. e = Fs (WriteFile p c) r \<longrightarrow> (p, c) \<in> set (generated_files this)"
  have "emits ?A (run this w)" by (rule emits_run) simp_all
  from emitsD [OF this, of s] empty have "list_all ?A (trace (snd (run this w s)))" by auto
  with wr show ?thesis unfolding list_all_iff by blast
qed

lemma program_writes:
  assumes wr: "Fs (WriteFile p c) r \<in> set (trace (snd (program w)))"
  shows "(p, c) \<in> set (generated_files (new_CompleteDeployer w))"
proof (cases \<open>''--quick'' \<in> set (drop 2 (argv w))\<close>)
  case False
  then have "snd (program w) = snd (run (new_CompleteDeployer w) w (initial w))"
    by (rule program_run)
  with wr show ?thesis using run_writes [of "initial w"] by (simp add: initial_def)
next
  case True
  let ?A = "\<lambda>e. \<forall>op r. e \<noteq> Fs op r"
  have "emits ?A (try_catch (quickDeploy w) console_error)"
    by (intro emits_try_catch emits_quickDeploy emits_console_error) simp_all
  from emitsD [OF this, of "initial w"]
  have "list_all ?A (trace (snd (try_catch (quickDeploy w) console_error (initial w))))"
    by (auto simp: initial_def)
  moreover have "snd (program w) = snd (try_catch (quickDeploy w) console_error (initial w))"
    using True by (simp add: program_def main_def split: prod.splits)
  ultimately show ?thesis using wr unfolding list_all_iff by auto
qed

subsection \<open>Quick mode without a credential\<close>

text \<open>
  C1. In quick mode with \<^verbatim>\<open>PRIVATE_KEY\<close> unset, the script prints the banner, constructs
  the provider object (which does no I/O), prints the error message and ends the process
  with status 1. That is the whole trace: no balance query, no transaction, no other
  network call, and the file tree is untouched.
\<close>

theorem quick_mode_missing_credential:
  assumes quick: \<open>''--quick'' \<in> set (drop 2 (argv w))\<close>
    and unset: "env_PRIVATE_KEY w = None"
  shows \<open>program w =
           (1, \<lparr>trace =
                  [Log quick_banner,
                   Sdk (NewJsonRpcProvider (or_else (env_RPC_URL w) ''https://sepolia.base.org''))
                       (Inr (or_else (env_RPC_URL w) ''https://sepolia.base.org'')),
                   Log missing_key_message],
                 nodes = fs0 w, cwd = cwd0 w\<rparr>)
         \<and> filter is_network_call (trace (snd (program w))) = []\<close>
proof -
  have key: \<open>or_else (env_PRIVATE_KEY w) ''YOUR_PRIVATE_KEY_HERE'' = ''YOUR_PRIVATE_KEY_HERE''\<close>
    using unset by (simp add: or_else_def)
  have \<open>program w =
           (1, \<lparr>trace =
                  [Log quick_banner,
                   Sdk (NewJsonRpcProvider (or_else (env_RPC_URL w) ''https://sepolia.base.org''))
                       (Inr (or_else (env_RPC_URL w) ''https://sepolia.base.org'')),
                   Log missing_key_message],
                 nodes = fs0 w, cwd = cwd0 w\<rparr>)\<close>
    using quick
    by (simp add: program_def main_def quickDeploy_def key Let_def try_catch_def andThen_def
        console_log_def new_provider_def process_exit_def emit_def initial_def exit_status_def)
  then show ?thesis by simp
qed

theorem quick_mode_missing_credential_witness:
  \<open>''--quick'' \<in> set (drop 2 (argv (calm\<lparr>argv := quick_argv, env_PRIVATE_KEY := None\<rparr>)))
   \<and> env_PRIVATE_KEY (calm\<lparr>argv := quick_argv, env_PRIVATE_KEY := None\<rparr>) = None
   \<and> fst (program (calm\<lparr>argv := quick_argv, env_PRIVATE_KEY := None\<rparr>)) = 1
   \<and> filter is_network_call
        (trace (snd (program (calm\<lparr>argv := quick_argv, env_PRIVATE_KEY := None\<rparr>)))) = []\<close>
  using quick_mode_missing_credential [of \<open>calm\<lparr>argv := quick_argv, env_PRIVATE_KEY := None\<rparr>\<close>]
  by (simp add: calm_def quick_argv_def)

subsection \<open>Which failures end the process with status 1\<close>







subsection \<open>A failing subprocess ends the run\<close>

text \<open>
  C3. In scaffold-and-deploy mode, when a command run by \<^verbatim>\<open>runCommand\<close> (\<^verbatim>\<open>npm install\<close>,
  \<^verbatim>\<open>npx hardhat compile\<close>, \<^verbatim>\<open>npx hardhat run\<close>, \<^verbatim>\<open>node monitor.js\<close>) exits with a
  status other than 0, the process exits with status 1, and the only thing the script does
  after the failed command is to print the error: no later step is attempted.
\<close>

theorem subprocess_failure_ends_run:
  assumes scaffold: \<open>''--quick'' \<notin> set (drop 2 (argv w))\<close>
    and ran: "ExecSync cmd evs n \<in> set (trace (snd (program w)))"
    and nonzero: "n \<noteq> 0"
  shows \<open>fst (program w) = 1 \<and>
         (\<exists>pre. trace (snd (program w)) =
                  pre @ [ExecSync cmd evs n, LogError (failed_prefix @ ''Command failed: '' @ cmd)])\<close>
  using scaffold
proof (cases rule: scaffold_cases)
  case (completed s new)
  then have "ExecSync cmd evs n \<in> set new" using ran by simp
  then have "list_ex failed new" using nonzero by (rule failing_exec_listed)
  with completed show ?thesis by simp
next
  case (thrown s new m)
  then have mem: "ExecSync cmd evs n \<in> set new" using ran by (simp add: emit_def)
  then have bad: "list_ex failed new" using nonzero by (rule failing_exec_listed)
  with thrown(4) obtain pre e where pe: "new = pre @ [e]" "failed e" "\<not> list_ex failed pre"
    \<open>\<forall>cmd evs n. e = ExecSync cmd evs n \<longrightarrow> m = ''Command failed: '' @ cmd\<close>
    unfolding outcome_ok_def by auto
  have "ExecSync cmd evs n \<notin> set pre" using pe(3) nonzero failing_exec_listed by blast
  with mem pe(1) have e: "e = ExecSync cmd evs n" by simp
  with pe(4) have m: \<open>m = ''Command failed: '' @ cmd\<close> by simp
  have "trace (snd (program w)) =
          (Log started_message # pre) @ [ExecSync cmd evs n, LogError (failed_prefix @ ''Command failed: '' @ cmd)]"
    using thrown pe(1) e m by (simp add: emit_def)
  then show ?thesis using thrown(1) by (metis fst_conv)
qed

theorem subprocess_failure_ends_run_witness:
  \<open>''--quick'' \<notin> set (drop 2 (argv node_missing))
   \<and> ExecSync ''node monitor.js'' [] 127 \<in> set (trace (snd (program node_missing)))
   \<and> (127::nat) \<noteq> 0
   \<and> fst (program node_missing) = 1
   \<and> (\<exists>pre. trace (snd (program node_missing)) =
          pre @ [ExecSync ''node monitor.js'' [] 127,
                 LogError (failed_prefix @ ''Command failed: '' @ ''node monitor.js'')])\<close>
  using subprocess_failure_ends_run [OF node_missing_run] node_missing_run by simp

subsection \<open>A failed confirmation read\<close>



subsection \<open>Byte-stable file contents\<close>

text \<open>
  C5. Take two runs of scaffold-and-deploy mode by two deployer objects with the same RPC URL;
  the worlds, the private keys and the states they start in may differ. Whenever both write a
  file under the same path, they write the same bytes. (The project name occurs in no file:
  the manifest names the project by a literal.) The files are \<^verbatim>\<open>package.json\<close>,
  \<^verbatim>\<open>hardhat.config.js\<close>, \<^verbatim>\<open>contracts/AIR.sol\<close>, \<^verbatim>\<open>scripts/deploy.js\<close>,
  \<^verbatim>\<open>.env.example\<close>, \<^verbatim>\<open>.gitignore\<close> and \<^verbatim>\<open>monitor.js\<close>.
\<close>

theorem generated_files_byte_stable:
  assumes url: "rpcUrl this1 = rpcUrl this2"
    and empty: "trace s1 = []" "trace s2 = []"
    and w1: "Fs (WriteFile p c1) r1 \<in> set (trace (snd (run this1 w1 s1)))"
    and w2: "Fs (WriteFile p c2) r2 \<in> set (trace (snd (run this2 w2 s2)))"
  shows "c1 = c2"
proof -
  have "(p, c1) \<in> set (generated_files this1)" using empty(1) w1 by (rule run_writes)
  moreover have "(p, c2) \<in> set (generated_files this2)" using empty(2) w2 by (rule run_writes)
  ultimately show ?thesis using generated_files_cong [OF url] generated_files_content by metis
qed

theorem generated_files_byte_stable_witness:
  \<open>rpcUrl (new_CompleteDeployer calm) = rpcUrl (new_CompleteDeployer other_key)
   \<and> privateKey (new_CompleteDeployer calm) \<noteq> privateKey (new_CompleteDeployer other_key)
   \<and> trace (initial calm) = [] \<and> trace (initial other_key) = []
   \<and> Fs (WriteFile ''monitor.js'' (monitorScript (new_CompleteDeployer calm))) None
        \<in> set (trace (snd (run (new_CompleteDeployer calm) calm (initial calm))))
   \<and> Fs (WriteFile ''monitor.js'' (monitorScript (new_CompleteDeployer other_key))) None
        \<in> set (trace (snd (run (new_CompleteDeployer other_key) other_key (initial other_key))))
   \<and> monitorScript (new_CompleteDeployer calm) = monitorScript (new_CompleteDeployer other_key)\<close>
proof -
  have url: "rpcUrl (new_CompleteDeployer calm) = rpcUrl (new_CompleteDeployer other_key)"
    and key: "privateKey (new_CompleteDeployer calm) \<noteq> privateKey (new_CompleteDeployer other_key)"
    by (simp_all add: new_CompleteDeployer_def other_key_def calm_def or_else_def)
  have e: "trace (initial calm) = []" "trace (initial other_key) = []"
    by (simp_all add: initial_def)
  have w1: \<open>Fs (WriteFile ''monitor.js'' (monitorScript (new_CompleteDeployer calm))) None
        \<in> set (trace (snd (run (new_CompleteDeployer calm) calm (initial calm))))\<close>
    using calm_run(2) program_run [OF calm_run(1)] by simp
  have w2: \<open>Fs (WriteFile ''monitor.js'' (monitorScript (new_CompleteDeployer other_key))) None
        \<in> set (trace (snd (run (new_CompleteDeployer other_key) other_key (initial other_key))))\<close>
    using other_key_run(2) program_run [OF other_key_run(1)] by simp
  from generated_files_byte_stable [OF url e w1 w2] url key e w1 w2 show ?thesis by simp
qed

subsection \<open>Creating directories that may exist\<close>

lemma guarded_mkdir_Normal:
  assumes "(if \<not> existsSync d s then mkdirSync w d s else skip s) = (Normal, s')"
  shows "cwd s' = cwd s" and "nodes s' (resolve s d) \<noteq> None"
    and "\<And>a. nodes s a \<noteq> None \<Longrightarrow> nodes s' a = nodes s a"
    and "existsSync d s \<Longrightarrow> s' = s"
  using assms
  by (auto simp: existsSync_def mkdirSync_def skip_def fs_fail_def emit_def Let_def
      split: if_splits option.splits)

lemma guarded_mkdir_present:
  assumes "nodes s (resolve s d) \<noteq> None"
  shows "(if \<not> existsSync d s then mkdirSync w d s else skip s) = (Normal, s)"
  using assms by (simp add: existsSync_def skip_def)

lemma guarded_mkdir_possible:
  assumes here: "nodes s (cwd s) = Some Dir" and os: "\<And>c op. os_error w c op = None"
    and one: "split_path d = [x]"
  shows "\<exists>s'. (if \<not> existsSync d s then mkdirSync w d s else skip s) = (Normal, s')
           \<and> nodes s' (cwd s') = Some Dir"
proof (cases "existsSync d s")
  case True
  then show ?thesis using here by (simp add: skip_def)
next
  case False
  let ?s' = "emit (Fs (Mkdir d) None) (s\<lparr>nodes := (nodes s)(cwd s @ [x] \<mapsto> Dir)\<rparr>)"
  have "mkdirSync w d s = (Normal, ?s')"
    using False here os one by (simp add: existsSync_def mkdirSync_def resolve_def Let_def)
  moreover have "nodes ?s' (cwd ?s') = Some Dir" using here by (simp add: emit_def)
  ultimately show ?thesis using False by simp
qed

lemma chdir_Normal:
  assumes "chdir w p s = (Normal, s')"
  shows "s' = emit (Fs (Chdir p) None) (s\<lparr>cwd := resolve s p\<rparr>)"
    and "nodes s (resolve s p) = Some Dir" and "os_error w (cwd s) (Chdir p) = None"
  using assms
  by (auto simp: chdir_def fs_fail_def Let_def split: if_splits option.splits)

lemma andThen_skip_right: "andThen p skip = p"
  by (rule ext) (simp add: andThen_def skip_def split: prod.splits completion.splits)

lemma andThen_Normal: "p s = (Normal, s') \<Longrightarrow> andThen p q s = q s'"
  by (simp add: andThen_def)

lemma andThen_NormalE:
  assumes "andThen p q s = (Normal, s')"
  obtains s1 where "p s = (Normal, s1)" and "q s1 = (Normal, s')"
  using assms by (auto simp: andThen_def split: prod.splits completion.splits)

text \<open>
  C6. Creating the project structure where its directories already exist raises no error.
  If the project directory exists and the operating system refuses nothing, the step ends
  normally, whichever of \<^verbatim>\<open>contracts\<close>, \<^verbatim>\<open>scripts\<close>, \<^verbatim>\<open>artifacts\<close> and \<^verbatim>\<open>cache\<close> exist in it. And
  whenever the step has ended normally, running it again from the directory it was started
  in ends normally too: every \<^verbatim>\<open>mkdirSync\<close> is skipped by its \<^verbatim>\<open>existsSync\<close> guard, so the
  second run only prints its message and changes into the project directory.
\<close>

theorem createProjectStructure_rerun:
  \<open>(nodes s (resolve s (projectName this)) = Some Dir \<and> (\<forall>c op. os_error w c op = None) \<longrightarrow>
      fst (createProjectStructure this w s) = Normal)
   \<and> (createProjectStructure this w s = (Normal, s1) \<longrightarrow>
      createProjectStructure this w (s1\<lparr>cwd := cwd s\<rparr>) =
        (Normal, s1\<lparr>trace := trace s1 @
                    [Log creating_structure_message, Fs (Chdir (projectName this)) None]\<rparr>))\<close>
proof (intro conjI impI)
  let ?pn = "projectName this"
  let ?g = "\<lambda>dir s. if \<not> existsSync dir s then mkdirSync w dir s else skip s"
  have unfold: "createProjectStructure this w s0 =
      andThen (console_log creating_structure_message)
        (andThen (?g ?pn)
          (andThen (chdir w ?pn)
            (andThen (?g ''contracts'') (andThen (?g ''scripts'')
              (andThen (?g ''artifacts'') (?g ''cache'')))))) s0" for s0
    by (simp only: createProjectStructure_def forEach_def block.simps list.map
        andThen_assoc andThen_skip_right)
  {
    assume a: "nodes s (resolve s ?pn) = Some Dir \<and> (\<forall>c op. os_error w c op = None)"
    then have os: "\<And>c op. os_error w c op = None" by simp
    let ?sa = "emit (Log creating_structure_message) s"
    let ?sc = "emit (Fs (Chdir ?pn) None) (?sa\<lparr>cwd := resolve ?sa ?pn\<rparr>)"
    have g0: "?g ?pn ?sa = (Normal, ?sa)"
      using a by (intro guarded_mkdir_present) (simp add: resolve_def emit_def)
    have cd: "chdir w ?pn ?sa = (Normal, ?sc)"
      using a os by (simp add: chdir_def resolve_def emit_def Let_def)
    have h: "nodes ?sc (cwd ?sc) = Some Dir" using a by (simp add: resolve_def emit_def)
    have sp: \<open>split_path ''contracts'' = [''contracts'']\<close> \<open>split_path ''scripts'' = [''scripts'']\<close>
      \<open>split_path ''artifacts'' = [''artifacts'']\<close> \<open>split_path ''cache'' = [''cache'']\<close>
      by simp_all
    from guarded_mkdir_possible [OF h os sp(1)] obtain u1
      where u1: \<open>?g ''contracts'' ?sc = (Normal, u1)\<close> "nodes u1 (cwd u1) = Some Dir"
      by blast
    from guarded_mkdir_possible [OF u1(2) os sp(2)] obtain u2
      where u2: \<open>?g ''scripts'' u1 = (Normal, u2)\<close> "nodes u2 (cwd u2) = Some Dir"
      by blast
    from guarded_mkdir_possible [OF u2(2) os sp(3)] obtain u3
      where u3: \<open>?g ''artifacts'' u2 = (Normal, u3)\<close> "nodes u3 (cwd u3) = Some Dir"
      by blast
    from guarded_mkdir_possible [OF u3(2) os sp(4)] obtain u4
      where u4: \<open>?g ''cache'' u3 = (Normal, u4)\<close> "nodes u4 (cwd u4) = Some Dir"
      by blast
    show "fst (createProjectStructure this w s) = Normal"
      by (simp add: unfold andThen_def console_log_def skip_def g0 cd u1(1) u2(1) u3(1) u4(1)
          cong: prod.case_cong_weak)
  }
  {
    assume first: "createProjectStructure this w s = (Normal, s1)"
    let ?sa = "emit (Log creating_structure_message) s"
    from first have "andThen (console_log creating_structure_message)
        (andThen (?g ?pn)
          (andThen (chdir w ?pn)
            (andThen (?g ''contracts'') (andThen (?g ''scripts'')
              (andThen (?g ''artifacts'') (?g ''cache'')))))) s = (Normal, s1)"
      by (simp only: unfold)
    then obtain sa where sa: "console_log creating_structure_message s = (Normal, sa)"
      and r0: "andThen (?g ?pn)
          (andThen (chdir w ?pn)
            (andThen (?g ''contracts'') (andThen (?g ''scripts'')
              (andThen (?g ''artifacts'') (?g ''cache''))))) sa = (Normal, s1)"
      by (rule andThen_NormalE)
    from sa have "sa = ?sa" by (simp add: console_log_def)
    with r0 obtain sb where sb: "?g ?pn ?sa = (Normal, sb)"
      and r1: "andThen (chdir w ?pn)
            (andThen (?g ''contracts'') (andThen (?g ''scripts'')
              (andThen (?g ''artifacts'') (?g ''cache'')))) sb = (Normal, s1)"
      by (auto elim: andThen_NormalE)
    from r1 obtain sc where sc: "chdir w ?pn sb = (Normal, sc)"
      and r2: "andThen (?g ''contracts'') (andThen (?g ''scripts'')
              (andThen (?g ''artifacts'') (?g ''cache''))) sc = (Normal, s1)"
      by (rule andThen_NormalE)
    from r2 obtain t1 where t1: \<open>?g ''contracts'' sc = (Normal, t1)\<close>
      and r3: "andThen (?g ''scripts'')
              (andThen (?g ''artifacts'') (?g ''cache'')) t1 = (Normal, s1)"
      by (rule andThen_NormalE)
    from r3 obtain t2 where t2: \<open>?g ''scripts'' t1 = (Normal, t2)\<close>
      and r4: "andThen (?g ''artifacts'') (?g ''cache'') t2 = (Normal, s1)"
      by (rule andThen_NormalE)
    from r4 obtain t3 where t3: \<open>?g ''artifacts'' t2 = (Normal, t3)\<close>
      and t4: \<open>?g ''cache'' t3 = (Normal, s1)\<close>
      by (rule andThen_NormalE)
    note gb = guarded_mkdir_Normal [OF sb]
    note cdn = chdir_Normal [OF sc]
    note g1 = guarded_mkdir_Normal [OF t1]
    note g2 = guarded_mkdir_Normal [OF t2]
    note g3 = guarded_mkdir_Normal [OF t3]
    note g4 = guarded_mkdir_Normal [OF t4]
    let ?P = "cwd s @ split_path ?pn"
    have cwdb: "cwd sb = cwd s" using gb(1) by (simp add: emit_def)
    have cwdc: "cwd sc = ?P" using cdn(1) cwdb by (simp add: resolve_def emit_def)
    have cwds: "cwd t1 = ?P" "cwd t2 = ?P" "cwd t3 = ?P" "cwd s1 = ?P"
      using g1(1) g2(1) g3(1) g4(1) cwdc by simp_all
    have pdir_c: "nodes sc ?P = Some Dir"
      using cdn(1,2) cwdb by (simp add: resolve_def emit_def)
    have k1: "nodes t1 a = Some x" if "nodes sc a = Some x" for a x
      using that g1(3) [of a] by simp
    have k2: "nodes t2 a = Some x" if "nodes t1 a = Some x" for a x
      using that g2(3) [of a] by simp
    have k3: "nodes t3 a = Some x" if "nodes t2 a = Some x" for a x
      using that g3(3) [of a] by simp
    have k4: "nodes s1 a = Some x" if "nodes t3 a = Some x" for a x
      using that g4(3) [of a] by simp
    have pdir: "nodes s1 ?P = Some Dir"
      by (intro k4 k3 k2 k1 pdir_c)
    from g1(2) obtain x1 where \<open>nodes t1 (?P @ split_path ''contracts'') = Some x1\<close>
      using cwdc by (auto simp: resolve_def)
    then have d1: \<open>nodes s1 (?P @ split_path ''contracts'') \<noteq> None\<close>
      using k4 k3 k2 by (metis option.distinct(1))
    from g2(2) obtain x2 where \<open>nodes t2 (?P @ split_path ''scripts'') = Some x2\<close>
      using cwds by (auto simp: resolve_def)
    then have d2: \<open>nodes s1 (?P @ split_path ''scripts'') \<noteq> None\<close>
      using k4 k3 by (metis option.distinct(1))
    from g3(2) obtain x3 where \<open>nodes t3 (?P @ split_path ''artifacts'') = Some x3\<close>
      using cwds by (auto simp: resolve_def)
    then have d3: \<open>nodes s1 (?P @ split_path ''artifacts'') \<noteq> None\<close>
      using k4 by (metis option.distinct(1))
    have d4: \<open>nodes s1 (?P @ split_path ''cache'') \<noteq> None\<close>
      using g4(2) cwds by (simp add: resolve_def)
    have os: "os_error w (cwd s) (Chdir ?pn) = None" using cdn(3) cwdb by simp
    let ?r = "s1\<lparr>cwd := cwd s\<rparr>"
    let ?ra = "emit (Log creating_structure_message) ?r"
    let ?rc = "emit (Fs (Chdir ?pn) None) (?ra\<lparr>cwd := ?P\<rparr>)"
    have q0: "?g ?pn ?ra = (Normal, ?ra)"
      using pdir by (intro guarded_mkdir_present) (simp add: resolve_def emit_def)
    have q1: "chdir w ?pn ?ra = (Normal, ?rc)"
      using pdir os by (simp add: chdir_def resolve_def emit_def Let_def)
    have q2: \<open>?g ''contracts'' ?rc = (Normal, ?rc)\<close> \<open>?g ''scripts'' ?rc = (Normal, ?rc)\<close>
      \<open>?g ''artifacts'' ?rc = (Normal, ?rc)\<close> \<open>?g ''cache'' ?rc = (Normal, ?rc)\<close>
      using d1 d2 d3 d4
      by (simp_all add: existsSync_def skip_def resolve_def emit_def del: split_path.simps)
    have c0: "console_log creating_structure_message ?r = (Normal, ?ra)"
      by (simp add: console_log_def)
    have "createProjectStructure this w ?r = (Normal, ?rc)"
      by (simp only: unfold andThen_def c0 q0 q1 q2 prod.case completion.case)
    moreover have "?rc = s1\<lparr>trace := trace s1 @
                    [Log creating_structure_message, Fs (Chdir ?pn) None]\<rparr>"
      using cwds(4) by (simp add: emit_def)
    ultimately show "createProjectStructure this w (s1\<lparr>cwd := cwd s\<rparr>) =
        (Normal, s1\<lparr>trace := trace s1 @
                    [Log creating_structure_message, Fs (Chdir (projectName this)) None]\<rparr>)"
      by simp
  }
qed

theorem createProjectStructure_rerun_witness:
  \<open>nodes project_present (resolve project_present (projectName (new_CompleteDeployer calm))) = Some Dir
   \<and> (\<forall>c op. os_error calm c op = None)
   \<and> fst (createProjectStructure (new_CompleteDeployer calm) calm project_present) = Normal
   \<and> createProjectStructure (new_CompleteDeployer calm) calm
        (snd (createProjectStructure (new_CompleteDeployer calm) calm project_present)
           \<lparr>cwd := cwd project_present\<rparr>) =
       (Normal, snd (createProjectStructure (new_CompleteDeployer calm) calm project_present)
          \<lparr>trace := trace (snd (createProjectStructure (new_CompleteDeployer calm) calm project_present)) @
             [Log creating_structure_message,
              Fs (Chdir (projectName (new_CompleteDeployer calm))) None]\<rparr>)\<close>
proof -
  let ?D = "new_CompleteDeployer calm"
  let ?r = "createProjectStructure ?D calm project_present"
  have h: "nodes project_present (resolve project_present (projectName ?D)) = Some Dir"
    by (simp add: project_present_def resolve_def new_CompleteDeployer_def)
  have os: "\<forall>c op. os_error calm c op = None" by (simp add: calm_def)
  have a: "fst ?r = Normal"
    using createProjectStructure_rerun [of project_present ?D calm] h os by blast
  then have b: "?r = (Normal, snd ?r)" by (metis prod.collapse)
  show ?thesis
    using createProjectStructure_rerun [of project_present ?D calm "snd ?r"] h os a b by blast
qed

subsection \<open>Quick mode leaves the file system alone\<close>




subsection \<open>The private key is not written\<close>

text \<open>
  C10. Whatever file the script writes, a run in a world that differs in \<^verbatim>\<open>PRIVATE_KEY\<close>
  only writes the same bytes under that path; the content is the one generated for a
  deployer object with an empty private key; and \<^verbatim>\<open>.env.example\<close> holds the literal
  placeholder \<^verbatim>\<open>your_private_key_here\<close> followed by the RPC URL.
\<close>

theorem private_key_never_written:
  assumes wr: "Fs (WriteFile p c) r \<in> set (trace (snd (program w)))"
  shows \<open>(\<forall>k c' r'. Fs (WriteFile p c') r' \<in> set (trace (snd (program (w\<lparr>env_PRIVATE_KEY := k\<rparr>))))
              \<longrightarrow> c' = c)
       \<and> (p = ''.env.example'' \<longrightarrow>
            c = ''PRIVATE_KEY=your_private_key_here\<newline>RPC_URL=''
                @ or_else (env_RPC_URL w) ''https://sepolia.base.org'')
       \<and> (p, c) \<in> set (generated_files
            \<lparr>projectName = ''air-token-project'', privateKey = [],
             rpcUrl = or_else (env_RPC_URL w) ''https://sepolia.base.org''\<rparr>)\<close>
proof -
  let ?plain = \<open>\<lparr>projectName = ''air-token-project'', privateKey = [],
             rpcUrl = or_else (env_RPC_URL w) ''https://sepolia.base.org''\<rparr>\<close>
  have same: "generated_files (new_CompleteDeployer (w\<lparr>env_PRIVATE_KEY := k\<rparr>)) = generated_files ?plain"
    for k
    by (rule generated_files_cong) (simp add: new_CompleteDeployer_def)
  have mem: "(p, c) \<in> set (generated_files ?plain)"
    using program_writes [OF wr] same [of "env_PRIVATE_KEY w"] by simp
  have other: "c' = c"
    if "Fs (WriteFile p c') r' \<in> set (trace (snd (program (w\<lparr>env_PRIVATE_KEY := k\<rparr>))))"
    for k c' r'
    using program_writes [OF that] same [of k] mem generated_files_content by metis
  have env: \<open>c = ''PRIVATE_KEY=your_private_key_here\<newline>RPC_URL=''
                @ or_else (env_RPC_URL w) ''https://sepolia.base.org''\<close>
    if \<open>p = ''.env.example''\<close>
    using mem that by (simp add: generated_files_def envTemplate_def)
  show ?thesis using mem other env by blast
qed

theorem private_key_never_written_witness:
  \<open>Fs (WriteFile ''monitor.js'' (monitorScript (new_CompleteDeployer calm))) None
     \<in> set (trace (snd (program calm)))
   \<and> Fs (WriteFile ''monitor.js'' (monitorScript (new_CompleteDeployer other_key))) None
        \<in> set (trace (snd (program (calm\<lparr>env_PRIVATE_KEY := Some ''0xdef''\<rparr>))))
   \<and> monitorScript (new_CompleteDeployer other_key) = monitorScript (new_CompleteDeployer calm)\<close>
proof -
  have o: \<open>Fs (WriteFile ''monitor.js'' (monitorScript (new_CompleteDeployer other_key))) None
        \<in> set (trace (snd (program (calm\<lparr>env_PRIVATE_KEY := Some ''0xdef''\<rparr>))))\<close>
    using other_key_run(2) by (simp add: other_key_def)
  from private_key_never_written [OF calm_run(2)] o calm_run(2) show ?thesis by blast
qed

end
